theory Spec2Isabelle
  imports Complex_Main
begin

section \<open>Sales summary view-model (SalesSummary component)\<close>

text \<open>
  The numbers of the payload are modelled exactly: counts as \<open>int\<close>, money amounts as
  \<open>rat\<close>. A plain object used as a dictionary (\<^verbatim>\<open>Record<string, number>\<close>) is the
  association list of its own properties in \<^verbatim>\<open>Object.entries\<close> order; a well-formed
  object has distinct keys.
\<close>

text \<open>
  What the property read \<^verbatim>\<open>obj[key] || 0\<close> can give on such an object: a number, or a
  member that every plain object inherits from \<^verbatim>\<open>Object.prototype\<close> (a function, or for
  \<^verbatim>\<open>__proto__\<close> the prototype object itself). An inherited member is truthy and converts
  to \<^verbatim>\<open>NaN\<close> in arithmetic.
\<close>

datatype jsvalue = Number rat | Inherited

record 'v Totals =
  count :: int
  revenue :: 'v

text \<open>One row of the merged monthly chart series (the object literal of \<^verbatim>\<open>prepareMonthlyData\<close>).\<close>

record MonthlyRow =
  month :: string
  monthKey :: string
  actualCount :: int
  projectedCount :: int
  actualRevenue :: rat
  projectedRevenue :: rat
  isProjected :: bool

text \<open>An entry \<^verbatim>\<open>{month, count, revenue}\<close> of \<^verbatim>\<open>monthly_trends\<close> and \<^verbatim>\<open>projected_sales\<close>.\<close>

record MonthItem = "rat Totals" +
  month :: string

text \<open>
  A category row \<^verbatim>\<open>{zone, count, revenue}\<close>; the key field is called \<^verbatim>\<open>zone\<close>,
  \<^verbatim>\<open>source\<close> and \<^verbatim>\<open>soldBy\<close> in the three builders and \<open>name\<close> here.
\<close>

record ChartRow = "jsvalue Totals" +
  name :: string

text \<open>The fields of the summary payload that the builders read.\<close>

record SalesSummary =
  monthly_trends :: "MonthItem list"
  projected_sales :: "MonthItem list"
  by_zone :: "(string \<times> int) list"
  by_zone_revenue :: "(string \<times> rat) list"
  by_lead_source :: "(string \<times> int) list"
  by_lead_source_revenue :: "(string \<times> rat) list"
  by_sold_by :: "(string \<times> int) list"
  by_sold_by_revenue :: "(string \<times> rat) list"

text \<open>\<^verbatim>\<open>x || 0\<close> on a possibly undefined number: \<^verbatim>\<open>undefined\<close> and \<^verbatim>\<open>0\<close> are falsy.\<close>

definition or_zero :: "'a::zero option \<Rightarrow> 'a" where
  "or_zero x = (case x of None \<Rightarrow> 0 | Some v \<Rightarrow> if v = 0 then 0 else v)"

text \<open>
  The names of the members of \<^verbatim>\<open>Object.prototype\<close> (ECMAScript, with the accessors of
  its Annex B), and the read \<^verbatim>\<open>obj[key] || 0\<close>: an own property gives its number (0
  for the falsy 0), a key that the object lacks gives the inherited member when there is
  one and 0, for \<^verbatim>\<open>undefined\<close>, otherwise.
\<close>

definition Object_prototype_keys :: "string list" where
  "Object_prototype_keys =
     [''constructor'', ''__proto__'', ''hasOwnProperty'', ''isPrototypeOf'',
      ''propertyIsEnumerable'', ''toLocaleString'', ''toString'', ''valueOf'',
      ''__defineGetter__'', ''__defineSetter__'', ''__lookupGetter__'', ''__lookupSetter__'']"

definition property_or_zero :: "(string \<times> rat) list \<Rightarrow> string \<Rightarrow> jsvalue" where
  "property_or_zero obj key =
     (case map_of obj key of
        Some v \<Rightarrow> Number (if v = 0 then 0 else v)
      | None \<Rightarrow> if key \<in> set Object_prototype_keys then Inherited else Number 0)"

text \<open>
  \<^verbatim>\<open>Array.prototype.sort(cmp)\<close>: a stable sort (ECMAScript 2019); \<open>a\<close> stays before
  \<open>b\<close> unless \<open>cmp a b > 0\<close>. Modelled as insertion from the right, which is stable.
  For a comparator that is not a consistent ordering ECMAScript leaves the order to the
  implementation; the model then gives the order of this insertion sort, and no theorem
  below states an order in that case.
\<close>

fun insert_sorted :: "('a \<Rightarrow> 'a \<Rightarrow> rat) \<Rightarrow> 'a \<Rightarrow> 'a list \<Rightarrow> 'a list" where
  "insert_sorted cmp x [] = [x]"
| "insert_sorted cmp x (y # ys) =
     (if cmp x y \<le> 0 then x # y # ys else y # insert_sorted cmp x ys)"

definition array_sort :: "('a \<Rightarrow> 'a \<Rightarrow> rat) \<Rightarrow> 'a list \<Rightarrow> 'a list" where
  "array_sort cmp xs = foldr (insert_sorted cmp) xs []"

text \<open>\<^verbatim>\<open>arr.find(pred)\<close>: the first element satisfying the predicate, or \<^verbatim>\<open>undefined\<close>.\<close>

definition array_find :: "('a \<Rightarrow> bool) \<Rightarrow> 'a list \<Rightarrow> 'a option" where
  "array_find p xs = List.find p xs"

text \<open>
  \<^verbatim>\<open>prepareMonthlyData\<close>. The label function \<^verbatim>\<open>formatMonth\<close> only formats the key for
  display through the host's locale support; it is a parameter here. The payload is
  \<open>None\<close> while \<^verbatim>\<open>summary\<close> is \<^verbatim>\<open>null\<close>.
\<close>

definition prepareMonthlyData ::
  "(string \<Rightarrow> string) \<Rightarrow> SalesSummary option \<Rightarrow> MonthlyRow list" where
  "prepareMonthlyData formatMonth summary =
     (let trends = (case summary of None \<Rightarrow> [] | Some s \<Rightarrow> monthly_trends s);
          projected = (case summary of None \<Rightarrow> [] | Some s \<Rightarrow> projected_sales s);
          combined = trends @ projected
      in map (\<lambda>item.
           \<lparr> MonthlyRow.month = formatMonth (month item),
             monthKey = month item,
             actualCount = or_zero (map_option count (array_find (\<lambda>m. month m = month item) trends)),
             projectedCount = or_zero (map_option count (array_find (\<lambda>m. month m = month item) projected)),
             actualRevenue = or_zero (map_option revenue (array_find (\<lambda>m. month m = month item) trends)),
             projectedRevenue = or_zero (map_option revenue (array_find (\<lambda>m. month m = month item) projected)),
             isProjected = (array_find (\<lambda>m. month m = month item) projected \<noteq> None) \<rparr>)
         combined)"

text \<open>
  The comparator \<^verbatim>\<open>(a, b) => b.revenue - a.revenue\<close>. The difference is \<^verbatim>\<open>NaN\<close> when a
  revenue is not a number, and \<^verbatim>\<open>sort\<close> takes a \<^verbatim>\<open>NaN\<close> from the comparator as 0.
\<close>

definition revenue_desc :: "ChartRow \<Rightarrow> ChartRow \<Rightarrow> rat" where
  "revenue_desc a b =
     (case (revenue b, revenue a) of (Number x, Number y) \<Rightarrow> x - y | _ \<Rightarrow> 0)"

text \<open>
  The arrow function \<^verbatim>\<open>([zone, count]) => ({zone, count, revenue: revenues[zone] || 0})\<close>,
  and the chain \<^verbatim>\<open>Object.entries(counts).map(...).sort((a, b) => b.revenue - a.revenue)\<close>
  that the three category builders share, before any \<^verbatim>\<open>slice\<close>.
\<close>

definition chart_row :: "(string \<times> rat) list \<Rightarrow> string \<times> int \<Rightarrow> ChartRow" where
  "chart_row revenues entry =
     (case entry of (key, n) \<Rightarrow>
        \<lparr> count = n, revenue = property_or_zero revenues key, name = key \<rparr>)"

definition categoryRows :: "(string \<times> int) list \<Rightarrow> (string \<times> rat) list \<Rightarrow> ChartRow list" where
  "categoryRows counts revenues = array_sort revenue_desc (map (chart_row revenues) counts)"

definition prepareZoneData :: "SalesSummary option \<Rightarrow> ChartRow list" where
  "prepareZoneData summary =
     (case summary of
        None \<Rightarrow> []
      | Some s \<Rightarrow> take 10 (categoryRows (by_zone s) (by_zone_revenue s)))"

definition prepareLeadSourceData :: "SalesSummary option \<Rightarrow> ChartRow list" where
  "prepareLeadSourceData summary =
     (case summary of
        None \<Rightarrow> []
      | Some s \<Rightarrow> take 8 (categoryRows (by_lead_source s) (by_lead_source_revenue s)))"

definition prepareSoldByData :: "SalesSummary option \<Rightarrow> ChartRow list" where
  "prepareSoldByData summary =
     (case summary of
        None \<Rightarrow> []
      | Some s \<Rightarrow> categoryRows (by_sold_by s) (by_sold_by_revenue s))"


text \<open>
  The breakdown as the specification words it, to compare the builders with: the counts
  joined with the revenues by key, revenue 0 for a key the revenue mapping lacks.
\<close>

definition joined_rows :: "(string \<times> int) list \<Rightarrow> (string \<times> rat) list \<Rightarrow> ChartRow list" where
  "joined_rows counts revenues =
     map (\<lambda>(key, n).
           \<lparr> count = n,
             revenue = Number (case map_of revenues key of None \<Rightarrow> 0 | Some v \<Rightarrow> v),
             name = key \<rparr>)
         counts"

text \<open>The amount of a numeric revenue (0 stands in for a value that is no number).\<close>

definition amount :: "jsvalue \<Rightarrow> rat" where
  "amount v = (case v of Number x \<Rightarrow> x | Inherited \<Rightarrow> 0)"

definition is_number :: "jsvalue \<Rightarrow> bool" where
  "is_number v = (case v of Number x \<Rightarrow> True | Inherited \<Rightarrow> False)"

text \<open>
  \<open>ys\<close> is \<open>xs\<close> sorted descending by revenue, ties in their original order: the
  revenues are numbers, \<open>ys\<close> is descending, and for every revenue value the rows
  carrying it are the same sequence in both lists (which also makes \<open>ys\<close> a
  rearrangement of \<open>xs\<close>).
\<close>

definition stable_desc_by_revenue :: "ChartRow list \<Rightarrow> ChartRow list \<Rightarrow> bool" where
  "stable_desc_by_revenue ys xs \<longleftrightarrow>
     list_all (\<lambda>r. is_number (revenue r)) ys \<and>
     sorted_wrt (\<lambda>a b. amount (revenue a) \<ge> amount (revenue b)) ys \<and>
     (\<forall>v. filter (\<lambda>r. revenue r = v) ys = filter (\<lambda>r. revenue r = v) xs)"

text \<open>
  No key of the counts mapping that the revenue mapping lacks is the name of an inherited
  member: every revenue read then gives a number.
\<close>

definition no_inherited_keys :: "(string \<times> int) list \<Rightarrow> (string \<times> rat) list \<Rightarrow> bool" where
  "no_inherited_keys counts revenues =
     list_all (\<lambda>(key, n). map_of revenues key \<noteq> None \<or> key \<notin> set Object_prototype_keys) counts"

text \<open>The sum of the revenues of a list of rows.\<close>

definition revenue_sum :: "ChartRow list \<Rightarrow> rat" where
  "revenue_sum rows = sum_list (map (\<lambda>r. amount (revenue r)) rows)"

text \<open>
  A payload to evaluate on: eleven zones, nine lead sources and three salespeople, two
  of them with the same revenue.
\<close>

definition example_payload :: SalesSummary where
  "example_payload =
     \<lparr> monthly_trends = [], projected_sales = [],
       by_zone = [(''Z01'', 3), (''Z02'', 1), (''Z03'', 2), (''Z04'', 1), (''Z05'', 1), (''Z06'', 4),
                  (''Z07'', 1), (''Z08'', 1), (''Z09'', 1), (''Z10'', 1), (''Z11'', 1)],
       by_zone_revenue = [(''Z01'', 100), (''Z02'', 300), (''Z03'', 200), (''Z04'', 50),
                  (''Z05'', 50), (''Z06'', 400), (''Z07'', 10), (''Z08'', 20), (''Z09'', 30),
                  (''Z10'', 40), (''Z11'', 5)],
       by_lead_source = [(''L1'', 1), (''L2'', 1), (''L3'', 1), (''L4'', 1), (''L5'', 1),
                  (''L6'', 1), (''L7'', 1), (''L8'', 1), (''L9'', 1)],
       by_lead_source_revenue = [(''L1'', 10), (''L2'', 20), (''L3'', 30), (''L4'', 40),
                  (''L5'', 50), (''L6'', 60), (''L7'', 70), (''L8'', 80), (''L9'', 90)],
       by_sold_by = [(''Asha'', 2), (''Ravi'', 1), (''Mina'', 4)],
       by_sold_by_revenue = [(''Asha'', 500), (''Ravi'', 900), (''Mina'', 500)] \<rparr>"

section \<open>Warranty status (RecordDetailModal component)\<close>

text \<open>
  The JavaScript numbers that this code holds in a variable are time values, year numbers
  and day counts: integers, or \<^verbatim>\<open>NaN\<close>. A \<^verbatim>\<open>Date\<close> object is its time value, the
  milliseconds since 1970-01-01T00:00:00Z, or \<open>NaN\<close> for an invalid date.
\<close>

datatype number = NaN | Num int

text \<open>
  The numbers are IEEE 754 doubles: the result of an arithmetic operation is the exact
  result rounded to the nearest double, a tie going to the double with the even
  significand. \<open>binade x\<close> is the exponent of the binade of \<open>x\<close> (at least -1022, where
  the subnormal numbers begin), and \<open>to_double x\<close> is \<open>x\<close> rounded to a multiple of the
  unit in the last place of its binade, which is 52 binary digits below. Every integer
  of magnitude up to \<open>2 ^ 53\<close> is a double. The overflow to infinity is left out: no
  number here reaches \<open>2 ^ 1024\<close>.
\<close>

definition round_half_even :: "rat \<Rightarrow> int" where
  "round_half_even y =
     (let f = \<lfloor>y\<rfloor>; r = y - of_int f
      in if r < 1 / 2 then f else if 1 / 2 < r then f + 1 else if even f then f else f + 1)"

definition binade :: "rat \<Rightarrow> int" where
  "binade x =
     (let ks = filter (\<lambda>k. 2 powi k \<le> \<bar>x\<bar>) [-1022..1023]
      in if ks = [] then -1022 else last ks)"

definition to_double :: "rat \<Rightarrow> rat" where
  "to_double x =
     (let ulp = 2 powi (binade x - 52)
      in of_int (round_half_even (x / ulp)) * ulp)"

text \<open>
  \<^verbatim>\<open>TimeClip\<close>: a \<^verbatim>\<open>Date\<close> holds a time value of at most 8.64e15 ms either side of the
  epoch (100 million days); a time beyond that makes the date invalid.
\<close>

definition TimeClip :: "number \<Rightarrow> number" where
  "TimeClip tv =
     (case tv of NaN \<Rightarrow> NaN | Num t \<Rightarrow> if \<bar>t\<bar> \<le> 8640000000000000 then Num t else NaN)"

definition msPerDay :: int where
  "msPerDay = 1000 * 60 * 60 * 24"

definition Day :: "int \<Rightarrow> int" where
  "Day t = t div msPerDay"

definition TimeWithinDay :: "int \<Rightarrow> int" where
  "TimeWithinDay t = t mod msPerDay"

text \<open>
  The proleptic Gregorian calendar of ECMAScript, by the usual era arithmetic (an era
  is 400 years, 146097 days, counted from 0000-03-01): \<open>civil_from_days n\<close> is the year,
  the month index (0 for January) and the day of the month of day number \<open>n\<close> (day 0 is
  1970-01-01), and \<open>days_from_civil\<close> is the day number of such a triple.
\<close>

definition civil_from_days :: "int \<Rightarrow> int \<times> int \<times> int" where
  "civil_from_days n =
     (let z = n + 719468;
          era = z div 146097;
          doe = z mod 146097;
          yoe = (doe - doe div 1460 + doe div 36524 - doe div 146096) div 365;
          doy = doe - (365 * yoe + yoe div 4 - yoe div 100);
          mp = (5 * doy + 2) div 153;
          d = doy - (153 * mp + 2) div 5 + 1;
          m = (if mp < 10 then mp + 2 else mp - 10);
          y = yoe + era * 400
      in (if m \<le> 1 then y + 1 else y, m, d))"

definition days_from_civil :: "int \<Rightarrow> int \<Rightarrow> int \<Rightarrow> int" where
  "days_from_civil year m d =
     (let y = (if m \<le> 1 then year - 1 else year);
          era = y div 400;
          yoe = y mod 400;
          doy = (153 * (if m > 1 then m - 2 else m + 10) + 2) div 5 + d - 1;
          doe = yoe * 365 + yoe div 4 - yoe div 100 + doy
      in era * 146097 + doe - 719468)"

definition YearFromTime :: "int \<Rightarrow> int" where
  "YearFromTime t = fst (civil_from_days (Day t))"

definition MonthFromTime :: "int \<Rightarrow> int" where
  "MonthFromTime t = fst (snd (civil_from_days (Day t)))"

definition DateFromTime :: "int \<Rightarrow> int" where
  "DateFromTime t = snd (snd (civil_from_days (Day t)))"

text \<open>
  \<^verbatim>\<open>MakeDay(year, month, date)\<close>: the day number of the first of the month, plus
  \<open>date - 1\<close>; a day of the month past the month's end runs into the next month.
\<close>

definition MakeDay :: "int \<Rightarrow> int \<Rightarrow> int \<Rightarrow> int" where
  "MakeDay year m dt = days_from_civil (year + m div 12) (m mod 12) 1 + dt - 1"

definition MakeDate :: "int \<Rightarrow> int \<Rightarrow> int" where
  "MakeDate day time = day * msPerDay + time"

text \<open>
  What the function takes from its host: the parser behind \<^verbatim>\<open>new Date(string)\<close>
  (implementation-defined outside the ISO format; \<open>NaN\<close> for a string it rejects), the
  offset of the local time zone in milliseconds (\<^verbatim>\<open>LocalTZA(t, isUTC)\<close>), and the reading
  of the system clock that \<^verbatim>\<open>new Date()\<close> returns, a time value.
\<close>

record Host =
  Date_parse :: "string \<Rightarrow> number"
  LocalTZA :: "int \<Rightarrow> bool \<Rightarrow> int"
  Date_now :: int

definition LocalTime :: "'a Host_scheme \<Rightarrow> int \<Rightarrow> int" where
  "LocalTime h t = t + LocalTZA h t True"

definition UTC :: "'a Host_scheme \<Rightarrow> int \<Rightarrow> int" where
  "UTC h t = t - LocalTZA h t False"

text \<open>
  \<^verbatim>\<open>new Date(string)\<close>: the parsed time, clipped. \<^verbatim>\<open>Date.prototype.getFullYear\<close> and
  \<^verbatim>\<open>setFullYear(year)\<close>, both in local time; \<^verbatim>\<open>setFullYear\<close> clips the new time value
  and stores it in the date, and the caller reads it from there. The calendar
  arithmetic is on integers: whenever it leaves the integers that a double holds
  exactly, the new date is past the range of \<^verbatim>\<open>Date\<close> and the clipped result is \<open>NaN\<close>
  either way.
\<close>

definition new_Date :: "'a Host_scheme \<Rightarrow> string \<Rightarrow> number" where
  "new_Date h s = TimeClip (Date_parse h s)"

definition getFullYear :: "'a Host_scheme \<Rightarrow> number \<Rightarrow> number" where
  "getFullYear h d = (case d of NaN \<Rightarrow> NaN | Num tv \<Rightarrow> Num (YearFromTime (LocalTime h tv)))"

definition setFullYear :: "'a Host_scheme \<Rightarrow> number \<Rightarrow> number \<Rightarrow> number" where
  "setFullYear h d year =
     (case year of
        NaN \<Rightarrow> NaN
      | Num y \<Rightarrow>
          (let t = (case d of NaN \<Rightarrow> 0 | Num tv \<Rightarrow> LocalTime h tv)
           in TimeClip (Num (UTC h (MakeDate (MakeDay y (MonthFromTime t) (DateFromTime t))
                                             (TimeWithinDay t))))))"

text \<open>
  Arithmetic and comparison with \<open>NaN\<close>: \<open>NaN\<close> propagates, and compares false. The code
  adds 1 to the year number of a date, which is exact (the year of a time value is
  below 300000), and subtracts two time values: the difference of two integers is
  rounded to a double, which is an integer again.
\<close>

definition num_add :: "number \<Rightarrow> number \<Rightarrow> number" where
  "num_add a b = (case (a, b) of (Num x, Num y) \<Rightarrow> Num (x + y) | _ \<Rightarrow> NaN)"

definition num_sub :: "number \<Rightarrow> number \<Rightarrow> number" where
  "num_sub a b =
     (case (a, b) of (Num x, Num y) \<Rightarrow> Num \<lfloor>to_double (of_int (x - y))\<rfloor> | _ \<Rightarrow> NaN)"

text \<open>
  \<^verbatim>\<open>Math.ceil(a / d)\<close>: the quotient is rounded to a double, and the ceiling of a double
  is exact.
\<close>

definition ceil_quotient :: "number \<Rightarrow> int \<Rightarrow> number" where
  "ceil_quotient a d =
     (case a of NaN \<Rightarrow> NaN | Num x \<Rightarrow> Num \<lceil>to_double (of_int x / of_int d)\<rceil>)"

definition num_less :: "number \<Rightarrow> number \<Rightarrow> bool" where
  "num_less a b = (case (a, b) of (Num x, Num y) \<Rightarrow> x < y | _ \<Rightarrow> False)"

definition num_le :: "number \<Rightarrow> number \<Rightarrow> bool" where
  "num_le a b = (case (a, b) of (Num x, Num y) \<Rightarrow> x \<le> y | _ \<Rightarrow> False)"

definition Math_abs :: "number \<Rightarrow> number" where
  "Math_abs a = (case a of NaN \<Rightarrow> NaN | Num x \<Rightarrow> Num \<bar>x\<bar>)"

text \<open>
  The fields of a record that the modelled functions read, and two that they do not.
  The numeric \<^verbatim>\<open>id\<close> is \<open>id_no\<close> here. An optional string is \<open>None\<close> when the field is
  \<^verbatim>\<open>null\<close> or missing.
\<close>

record Record =
  id_no :: int
  record_id :: string
  client_name :: string
  client_phone :: "string option"
  date_of_delivery :: "string option"

datatype WarrantyStatus = out_of_warranty | expiring_soon | in_warranty

text \<open>The object \<^verbatim>\<open>{status, expiry, daysRemaining}\<close>; \<open>expiry\<close> is \<open>None\<close> for \<^verbatim>\<open>null\<close>.\<close>

record Warranty =
  status :: WarrantyStatus
  expiry :: "number option"
  daysRemaining :: number

text \<open>\<^verbatim>\<open>!s\<close> for an optional string: \<^verbatim>\<open>null\<close>, \<^verbatim>\<open>undefined\<close> and the empty string are falsy.\<close>

definition falsy :: "string option \<Rightarrow> bool" where
  "falsy s \<longleftrightarrow> s = None \<or> s = Some []"

text \<open>
  \<^verbatim>\<open>calculateWarrantyStatus\<close>. The function has no parameters: it reads
  \<^verbatim>\<open>currentRecord\<close> from the component's state and the current time from the system
  clock (\<^verbatim>\<open>const today = new Date()\<close>).
\<close>

definition calculateWarrantyStatus :: "'a Host_scheme \<Rightarrow> Record \<Rightarrow> Warranty" where
  "calculateWarrantyStatus h currentRecord =
     (if falsy (date_of_delivery currentRecord)
      then \<lparr> status = out_of_warranty, expiry = None, daysRemaining = Num 0 \<rparr>
      else
        (let delivery = new_Date h (the (date_of_delivery currentRecord));
             expiry = setFullYear h delivery (num_add (getFullYear h delivery) (Num 1));
             today = Num (Date_now h);
             daysRemaining = ceil_quotient (num_sub expiry today) (1000 * 60 * 60 * 24)
         in if num_less daysRemaining (Num 0)
            then \<lparr> status = out_of_warranty, expiry = Some expiry,
                   daysRemaining = Math_abs daysRemaining \<rparr>
            else if num_le daysRemaining (Num 30)
            then \<lparr> status = expiring_soon, expiry = Some expiry, daysRemaining = daysRemaining \<rparr>
            else \<lparr> status = in_warranty, expiry = Some expiry, daysRemaining = daysRemaining \<rparr>))"

text \<open>
  A host and a record to evaluate on: a parser that knows the ISO dates 2025-01-15 and
  2024-02-29 (midnight UTC, 1736899200000 and 1709164800000 ms), the first day of the
  year 20000 (568971820800000 ms) and the last day that a \<^verbatim>\<open>Date\<close> holds, 13 September
  275760 (8640000000000000 ms); Indian Standard Time (UTC+05:30), and a clock reading
  \<open>now\<close>.
\<close>

definition example_host :: "int \<Rightarrow> Host" where
  "example_host now =
     \<lparr> Date_parse = (\<lambda>s. if s = ''2025-01-15'' then Num 1736899200000
                         else if s = ''2024-02-29'' then Num 1709164800000
                         else if s = ''+020000-01-01T00:00:00.000Z'' then Num 568971820800000
                         else if s = ''+275760-09-13T00:00:00.000Z'' then Num 8640000000000000
                         else NaN),
       LocalTZA = (\<lambda>t isUTC. 19800000),
       Date_now = now \<rparr>"

definition example_record :: "string option \<Rightarrow> Record" where
  "example_record delivery =
     \<lparr> id_no = 7, record_id = ''REC-0007'', client_name = ''Asha'',
       client_phone = Some ''555-1234'', date_of_delivery = delivery \<rparr>"

section \<open>Record history (RecordDetailModal component)\<close>

text \<open>
  The two requests of the component, \<^verbatim>\<open>GET /records/history/{phone}?exclude_id={id}&limit={n}\<close>
  and \<^verbatim>\<open>GET /records/{id}\<close>; a rejected \<^verbatim>\<open>api.get\<close> promise; and what a handler does
  besides setting state: a request sent, a \<^verbatim>\<open>console.error\<close> line, and the callbacks
  \<^verbatim>\<open>onEdit(id)\<close> and \<^verbatim>\<open>onClose()\<close>.
\<close>

datatype Request = GetHistory string int nat | GetRecord int

datatype Failure = NetworkFailure | HttpStatus nat

datatype Event = Requested Request | ConsoleError string | Edit int | Close

text \<open>
  The backend as the handlers see it through \<^verbatim>\<open>await api.get(...)\<close>: the value of
  \<^verbatim>\<open>response.data.records\<close>, or of \<^verbatim>\<open>response.data\<close>, or the rejection.
\<close>

record Api =
  get_history :: "string \<Rightarrow> int \<Rightarrow> nat \<Rightarrow> Failure + Record list"
  get_record :: "int \<Rightarrow> Failure + Record"

text \<open>The component's state (\<^verbatim>\<open>useState\<close>).\<close>

record ModalState =
  currentRecord :: Record
  relatedRecords :: "Record list"
  loading :: bool

text \<open>
  \<^verbatim>\<open>fetchRelatedRecords\<close>, from the call to the settled promise: the state it leaves and
  the events in order. \<^verbatim>\<open>finally\<close> clears \<^verbatim>\<open>loading\<close> on both paths.
\<close>

definition fetchRelatedRecords :: "Api \<Rightarrow> ModalState \<Rightarrow> ModalState \<times> Event list" where
  "fetchRelatedRecords api st =
     (if falsy (client_phone (currentRecord st))
      then (st\<lparr> relatedRecords := [] \<rparr>, [])
      else
        (let phone = the (client_phone (currentRecord st));
             request = GetHistory phone (id_no (currentRecord st)) 10;
             st1 = st\<lparr> loading := True \<rparr>
         in case get_history api phone (id_no (currentRecord st)) 10 of
              Inr records \<Rightarrow>
                (st1\<lparr> relatedRecords := records, loading := False \<rparr>, [Requested request])
            | Inl error \<Rightarrow>
                (st1\<lparr> relatedRecords := [], loading := False \<rparr>,
                 [Requested request, ConsoleError ''Error fetching related records:''])))"

text \<open>\<^verbatim>\<open>handleViewRelatedRecord\<close>: switch the displayed record to a related one.\<close>

definition handleViewRelatedRecord ::
  "Api \<Rightarrow> ModalState \<Rightarrow> Record \<Rightarrow> ModalState \<times> Event list" where
  "handleViewRelatedRecord api st relatedRecord =
     (case get_record api (id_no relatedRecord) of
        Inr data \<Rightarrow>
          (st\<lparr> currentRecord := data, relatedRecords := [] \<rparr>,
           [Requested (GetRecord (id_no relatedRecord))])
      | Inl error \<Rightarrow>
          (st, [Requested (GetRecord (id_no relatedRecord)),
                ConsoleError ''Error fetching record:'',
                Edit (id_no relatedRecord), Close]))"

section \<open>The summary builders on a store\<close>

text \<open>
  The builders above take the payload by value. The JavaScript works on references:
  the payload's arrays and objects live in the heap, \<^verbatim>\<open>Object.entries\<close>, \<^verbatim>\<open>map\<close>,
  \<^verbatim>\<open>slice\<close> and the spread literal allocate new arrays, and \<^verbatim>\<open>sort\<close> reorders the
  array it is called on in place. The store is the list of the heap's cells, an address
  is an index into it, and a cell holds the contents of one array or object. Reading
  an address that holds no cell of the expected kind gives the empty contents.
\<close>

type_synonym addr = nat

datatype cell =
    Items "MonthItem list"
  | Counts "(string \<times> int) list"
  | Revenues "(string \<times> rat) list"
  | Entries "(string \<times> int) list"
  | Rows "ChartRow list"
  | MonthlyRows "MonthlyRow list"

type_synonym store = "cell list"

definition alloc :: "cell \<Rightarrow> store \<Rightarrow> addr \<times> store" where
  "alloc c h = (length h, h @ [c])"

definition items_at :: "store \<Rightarrow> addr \<Rightarrow> MonthItem list" where
  "items_at h a = (if a < length h then (case h ! a of Items xs \<Rightarrow> xs | _ \<Rightarrow> []) else [])"

definition counts_at :: "store \<Rightarrow> addr \<Rightarrow> (string \<times> int) list" where
  "counts_at h a = (if a < length h then (case h ! a of Counts xs \<Rightarrow> xs | _ \<Rightarrow> []) else [])"

definition revenues_at :: "store \<Rightarrow> addr \<Rightarrow> (string \<times> rat) list" where
  "revenues_at h a = (if a < length h then (case h ! a of Revenues xs \<Rightarrow> xs | _ \<Rightarrow> []) else [])"

definition entries_at :: "store \<Rightarrow> addr \<Rightarrow> (string \<times> int) list" where
  "entries_at h a = (if a < length h then (case h ! a of Entries xs \<Rightarrow> xs | _ \<Rightarrow> []) else [])"

definition rows_at :: "store \<Rightarrow> addr \<Rightarrow> ChartRow list" where
  "rows_at h a = (if a < length h then (case h ! a of Rows xs \<Rightarrow> xs | _ \<Rightarrow> []) else [])"

definition monthly_rows_at :: "store \<Rightarrow> addr \<Rightarrow> MonthlyRow list" where
  "monthly_rows_at h a =
     (if a < length h then (case h ! a of MonthlyRows xs \<Rightarrow> xs | _ \<Rightarrow> []) else [])"

text \<open>\<^verbatim>\<open>arr.sort(cmp)\<close> on the array at an address: the cell is overwritten.\<close>

definition sort_at :: "(ChartRow \<Rightarrow> ChartRow \<Rightarrow> rat) \<Rightarrow> addr \<Rightarrow> store \<Rightarrow> store" where
  "sort_at cmp a h =
     (if a < length h
      then (case h ! a of Rows rs \<Rightarrow> h[a := Rows (array_sort cmp rs)] | _ \<Rightarrow> h)
      else h)"

text \<open>The payload as the component holds it: the addresses of its arrays and objects.\<close>

record SummaryRef =
  monthly_trends_at :: addr
  projected_sales_at :: addr
  by_zone_at :: addr
  by_zone_revenue_at :: addr
  by_lead_source_at :: addr
  by_lead_source_revenue_at :: addr
  by_sold_by_at :: addr
  by_sold_by_revenue_at :: addr

text \<open>The value of a payload in a store.\<close>

definition summary_of :: "store \<Rightarrow> SummaryRef \<Rightarrow> SalesSummary" where
  "summary_of h r =
     \<lparr> monthly_trends = items_at h (monthly_trends_at r),
       projected_sales = items_at h (projected_sales_at r),
       by_zone = counts_at h (by_zone_at r),
       by_zone_revenue = revenues_at h (by_zone_revenue_at r),
       by_lead_source = counts_at h (by_lead_source_at r),
       by_lead_source_revenue = revenues_at h (by_lead_source_revenue_at r),
       by_sold_by = counts_at h (by_sold_by_at r),
       by_sold_by_revenue = revenues_at h (by_sold_by_revenue_at r) \<rparr>"

definition refs_in_store :: "SummaryRef option \<Rightarrow> store \<Rightarrow> bool" where
  "refs_in_store summary h =
     (case summary of
        None \<Rightarrow> True
      | Some r \<Rightarrow>
          monthly_trends_at r < length h \<and> projected_sales_at r < length h \<and>
          by_zone_at r < length h \<and> by_zone_revenue_at r < length h \<and>
          by_lead_source_at r < length h \<and> by_lead_source_revenue_at r < length h \<and>
          by_sold_by_at r < length h \<and> by_sold_by_revenue_at r < length h)"

text \<open>
  \<^verbatim>\<open>prepareMonthlyData\<close> on the store: the spread literal allocates \<^verbatim>\<open>combined\<close>, and
  \<^verbatim>\<open>map\<close> allocates the result; the \<^verbatim>\<open>find\<close> calls read the payload's own arrays.
\<close>

definition prepareMonthlyData_st ::
  "(string \<Rightarrow> string) \<Rightarrow> SummaryRef option \<Rightarrow> store \<Rightarrow> addr \<times> store" where
  "prepareMonthlyData_st formatMonth summary h =
     (let (combined, h1) =
            alloc (Items ((case summary of None \<Rightarrow> [] | Some r \<Rightarrow> items_at h (monthly_trends_at r))
                        @ (case summary of None \<Rightarrow> [] | Some r \<Rightarrow> items_at h (projected_sales_at r)))) h
      in alloc (MonthlyRows (map (\<lambda>item.
           \<lparr> MonthlyRow.month = formatMonth (month item),
             monthKey = month item,
             actualCount = or_zero (map_option count (array_find (\<lambda>m. month m = month item)
               (case summary of None \<Rightarrow> [] | Some r \<Rightarrow> items_at h1 (monthly_trends_at r)))),
             projectedCount = or_zero (map_option count (array_find (\<lambda>m. month m = month item)
               (case summary of None \<Rightarrow> [] | Some r \<Rightarrow> items_at h1 (projected_sales_at r)))),
             actualRevenue = or_zero (map_option revenue (array_find (\<lambda>m. month m = month item)
               (case summary of None \<Rightarrow> [] | Some r \<Rightarrow> items_at h1 (monthly_trends_at r)))),
             projectedRevenue = or_zero (map_option revenue (array_find (\<lambda>m. month m = month item)
               (case summary of None \<Rightarrow> [] | Some r \<Rightarrow> items_at h1 (projected_sales_at r)))),
             isProjected = (array_find (\<lambda>m. month m = month item)
               (case summary of None \<Rightarrow> [] | Some r \<Rightarrow> items_at h1 (projected_sales_at r)) \<noteq> None) \<rparr>)
           (items_at h1 combined))) h1)"

text \<open>
  The chain \<^verbatim>\<open>Object.entries(counts).map(...).sort(...)\<close> on the store: two allocations,
  then the sort of the array that \<^verbatim>\<open>map\<close> returned, in place. It returns that array.
\<close>

definition categoryRows_st :: "addr \<Rightarrow> addr \<Rightarrow> store \<Rightarrow> addr \<times> store" where
  "categoryRows_st counts revenues h =
     (let (entries, h1) = alloc (Entries (counts_at h counts)) h;
          (mapped, h2) =
            alloc (Rows (map (chart_row (revenues_at h1 revenues)) (entries_at h1 entries))) h1
      in (mapped, sort_at revenue_desc mapped h2))"

definition prepareZoneData_st :: "SummaryRef option \<Rightarrow> store \<Rightarrow> addr \<times> store" where
  "prepareZoneData_st summary h =
     (case summary of
        None \<Rightarrow> alloc (Rows []) h
      | Some r \<Rightarrow>
          (let (sorted, h1) = categoryRows_st (by_zone_at r) (by_zone_revenue_at r) h
           in alloc (Rows (take 10 (rows_at h1 sorted))) h1))"

definition prepareLeadSourceData_st :: "SummaryRef option \<Rightarrow> store \<Rightarrow> addr \<times> store" where
  "prepareLeadSourceData_st summary h =
     (case summary of
        None \<Rightarrow> alloc (Rows []) h
      | Some r \<Rightarrow>
          (let (sorted, h1) = categoryRows_st (by_lead_source_at r) (by_lead_source_revenue_at r) h
           in alloc (Rows (take 8 (rows_at h1 sorted))) h1))"

definition prepareSoldByData_st :: "SummaryRef option \<Rightarrow> store \<Rightarrow> addr \<times> store" where
  "prepareSoldByData_st summary h =
     (case summary of
        None \<Rightarrow> alloc (Rows []) h
      | Some r \<Rightarrow> categoryRows_st (by_sold_by_at r) (by_sold_by_revenue_at r) h)"

text \<open>
  One render of the component builds the four series in this order
  (\<^verbatim>\<open>monthlyData\<close>, \<^verbatim>\<open>zoneData\<close>, \<^verbatim>\<open>leadSourceData\<close>, \<^verbatim>\<open>soldByData\<close>).
\<close>

definition buildViewModel ::
  "(string \<Rightarrow> string) \<Rightarrow> SummaryRef option \<Rightarrow> store \<Rightarrow> (addr \<times> addr \<times> addr \<times> addr) \<times> store" where
  "buildViewModel formatMonth summary h =
     (let (monthlyData, h1) = prepareMonthlyData_st formatMonth summary h;
          (zoneData, h2) = prepareZoneData_st summary h1;
          (leadSourceData, h3) = prepareLeadSourceData_st summary h2;
          (soldByData, h4) = prepareSoldByData_st summary h3
      in ((monthlyData, zoneData, leadSourceData, soldByData), h4))"

text \<open>The contents of the four arrays that a build returned.\<close>

definition view_of ::
  "store \<Rightarrow> addr \<times> addr \<times> addr \<times> addr
     \<Rightarrow> MonthlyRow list \<times> ChartRow list \<times> ChartRow list \<times> ChartRow list" where
  "view_of h out =
     (case out of (monthlyData, zoneData, leadSourceData, soldByData) \<Rightarrow>
        (monthly_rows_at h monthlyData, rows_at h zoneData,
         rows_at h leadSourceData, rows_at h soldByData))"

text \<open>
  A payload to evaluate on: eight cells, one per array or object of the payload, and the
  payload's addresses for them.
\<close>

definition example_refs :: SummaryRef where
  "example_refs =
     \<lparr> monthly_trends_at = 0, projected_sales_at = 1, by_zone_at = 2,
       by_zone_revenue_at = 3, by_lead_source_at = 4, by_lead_source_revenue_at = 5,
       by_sold_by_at = 6, by_sold_by_revenue_at = 7 \<rparr>"

definition example_store :: store where
  "example_store =
     [Items [\<lparr> count = 4, revenue = 400, month = ''2025-05'' \<rparr>],
      Items [\<lparr> count = 6, revenue = 600, month = ''2025-06'' \<rparr>],
      Counts [(''North'', 3), (''South'', 1)], Revenues [(''North'', 250), (''South'', 1000)],
      Counts [(''Web'', 4)], Revenues [(''Web'', 300)],
      Counts [(''Asha'', 2)], Revenues [(''Asha'', 500)]]"

section \<open>Properties of the category breakdowns\<close>

lemma or_zero_eq: "or_zero x = (case x of None \<Rightarrow> 0 | Some v \<Rightarrow> v)"
  by (simp add: or_zero_def split: option.splits)

lemma set_insert_sorted: "set (insert_sorted cmp x ys) = insert x (set ys)"
  by (induction ys) auto

lemma set_array_sort: "set (array_sort cmp xs) = set xs"
  by (induction xs) (simp_all add: array_sort_def set_insert_sorted)





lemma sum_list_insert_sorted:
  fixes g :: "'a \<Rightarrow> rat"
  shows "sum_list (map g (insert_sorted cmp x ys)) = g x + sum_list (map g ys)"
  by (induction ys) auto

lemma sum_list_array_sort:
  fixes g :: "'a \<Rightarrow> rat"
  shows "sum_list (map g (array_sort cmp xs)) = sum_list (map g xs)"
  by (induction xs) (simp_all add: array_sort_def sum_list_insert_sorted)

lemma chart_row_joined:
  "no_inherited_keys counts revenues \<Longrightarrow> map (chart_row revenues) counts = joined_rows counts revenues"
  by (auto simp: no_inherited_keys_def joined_rows_def chart_row_def property_or_zero_def
      list_all_iff split: option.splits)

lemma joined_rows_numeric: "list_all (\<lambda>r. is_number (revenue r)) (joined_rows counts revenues)"
  by (simp add: joined_rows_def list_all_iff is_number_def case_prod_beta)

lemma insert_sorted_insort_key:
  assumes "is_number (revenue x)" "list_all (\<lambda>r. is_number (revenue r)) ys"
  shows "insert_sorted revenue_desc x ys = insort_key (\<lambda>r. - amount (revenue r)) x ys"
  using assms
  by (induction ys)
     (auto simp: revenue_desc_def amount_def is_number_def split: jsvalue.splits)

lemma array_sort_sort_key:
  assumes "list_all (\<lambda>r. is_number (revenue r)) xs"
  shows "array_sort revenue_desc xs = sort_key (\<lambda>r. - amount (revenue r)) xs"
  using assms
proof (induction xs)
  case Nil
  show ?case by (simp add: array_sort_def)
next
  case (Cons x xs)
  then have tail: "array_sort revenue_desc xs = sort_key (\<lambda>r. - amount (revenue r)) xs"
    by simp
  have "list_all (\<lambda>r. is_number (revenue r)) (array_sort revenue_desc xs)"
    using Cons.prems by (simp add: list_all_iff set_array_sort)
  with Cons.prems
  have "insert_sorted revenue_desc x (array_sort revenue_desc xs)
        = insort_key (\<lambda>r. - amount (revenue r)) x (array_sort revenue_desc xs)"
    by (intro insert_sorted_insort_key) simp_all
  then show ?case
    by (simp add: array_sort_def tail [unfolded array_sort_def])
qed

lemma categoryRows_joined:
  "no_inherited_keys counts revenues \<Longrightarrow>
     categoryRows counts revenues
       = sort_key (\<lambda>r. - amount (revenue r)) (joined_rows counts revenues)"
  by (simp add: categoryRows_def chart_row_joined array_sort_sort_key joined_rows_numeric)

lemma sorted_desc_sort_key:
  "sorted_wrt (\<lambda>a b. amount (revenue a) \<ge> amount (revenue b))
     (sort_key (\<lambda>r. - amount (revenue r)) xs)"
proof -
  have "sorted (map (\<lambda>r. - amount (revenue r)) (sort_key (\<lambda>r. - amount (revenue r)) xs))"
    by (rule sorted_sort_key)
  then show ?thesis
    by (simp add: sorted_wrt_map)
qed

lemma sort_key_constant:
  assumes "\<And>x. x \<in> set xs \<Longrightarrow> f x = c"
  shows "sort_key f xs = xs"
proof -
  have "filter (\<lambda>y. f y = c) (sort_key f xs) = filter (\<lambda>y. f y = c) xs"
    by (rule sort_key_stable)
  moreover have "filter (\<lambda>y. f y = c) xs = xs"
    using assms by (simp add: filter_id_conv)
  moreover have "filter (\<lambda>y. f y = c) (sort_key f xs) = sort_key f xs"
    using assms by (simp add: filter_id_conv)
  ultimately show ?thesis by simp
qed

lemma stable_sort_key_revenue:
  "filter (\<lambda>r. revenue r = v) (sort_key (\<lambda>r. - amount (revenue r)) xs)
   = filter (\<lambda>r. revenue r = v) xs"
proof -
  have "filter (\<lambda>r. revenue r = v) (sort_key (\<lambda>r. - amount (revenue r)) xs)
        = sort_key (\<lambda>r. - amount (revenue r)) (filter (\<lambda>r. revenue r = v) xs)"
    by (rule filter_sort)
  also have "\<dots> = filter (\<lambda>r. revenue r = v) xs"
    by (rule sort_key_constant [where c = "- amount v"]) simp
  finally show ?thesis .
qed

lemma categoryRows_stable_desc:
  assumes "no_inherited_keys counts revenues"
  shows "stable_desc_by_revenue (categoryRows counts revenues) (joined_rows counts revenues)"
proof -
  have "list_all (\<lambda>r. is_number (revenue r))
          (sort_key (\<lambda>r. - amount (revenue r)) (joined_rows counts revenues))"
    using joined_rows_numeric [of counts revenues] by (simp add: list_all_iff)
  then show ?thesis
    by (simp add: stable_desc_by_revenue_def categoryRows_joined [OF assms] sorted_desc_sort_key
        stable_sort_key_revenue)
qed

lemma set_categoryRows:
  "set (categoryRows counts revenues) = chart_row revenues ` set counts"
  by (simp add: categoryRows_def set_array_sort)






lemmas breakdown_eval = prepareZoneData_def prepareLeadSourceData_def prepareSoldByData_def
  categoryRows_def chart_row_def property_or_zero_def revenue_desc_def array_sort_def
  example_payload_def

lemma example_zone_rows:
  "prepareZoneData (Some example_payload)
   = [\<lparr> count = 4, revenue = Number 400, name = ''Z06'' \<rparr>,
      \<lparr> count = 1, revenue = Number 300, name = ''Z02'' \<rparr>,
      \<lparr> count = 2, revenue = Number 200, name = ''Z03'' \<rparr>,
      \<lparr> count = 3, revenue = Number 100, name = ''Z01'' \<rparr>,
      \<lparr> count = 1, revenue = Number 50, name = ''Z04'' \<rparr>,
      \<lparr> count = 1, revenue = Number 50, name = ''Z05'' \<rparr>,
      \<lparr> count = 1, revenue = Number 40, name = ''Z10'' \<rparr>,
      \<lparr> count = 1, revenue = Number 30, name = ''Z09'' \<rparr>,
      \<lparr> count = 1, revenue = Number 20, name = ''Z08'' \<rparr>,
      \<lparr> count = 1, revenue = Number 10, name = ''Z07'' \<rparr>]"
  by (simp add: breakdown_eval)

lemma example_lead_rows:
  "prepareLeadSourceData (Some example_payload)
   = [\<lparr> count = 1, revenue = Number 90, name = ''L9'' \<rparr>,
      \<lparr> count = 1, revenue = Number 80, name = ''L8'' \<rparr>,
      \<lparr> count = 1, revenue = Number 70, name = ''L7'' \<rparr>,
      \<lparr> count = 1, revenue = Number 60, name = ''L6'' \<rparr>,
      \<lparr> count = 1, revenue = Number 50, name = ''L5'' \<rparr>,
      \<lparr> count = 1, revenue = Number 40, name = ''L4'' \<rparr>,
      \<lparr> count = 1, revenue = Number 30, name = ''L3'' \<rparr>,
      \<lparr> count = 1, revenue = Number 20, name = ''L2'' \<rparr>]"
  by (simp add: breakdown_eval)

lemma example_sold_rows:
  "prepareSoldByData (Some example_payload)
   = [\<lparr> count = 1, revenue = Number 900, name = ''Ravi'' \<rparr>,
      \<lparr> count = 2, revenue = Number 500, name = ''Asha'' \<rparr>,
      \<lparr> count = 4, revenue = Number 500, name = ''Mina'' \<rparr>]"
  by (simp add: breakdown_eval)

lemma example_no_inherited:
  "no_inherited_keys (by_zone example_payload) (by_zone_revenue example_payload)"
  "no_inherited_keys (by_lead_source example_payload) (by_lead_source_revenue example_payload)"
  "no_inherited_keys (by_sold_by example_payload) (by_sold_by_revenue example_payload)"
  by (simp_all add: no_inherited_keys_def example_payload_def)






lemma amount_property_or_zero: "amount (property_or_zero R k) = or_zero (map_of R k)"
  by (simp add: amount_def property_or_zero_def or_zero_def split: option.splits)

lemma revenue_sum_categoryRows:
  "revenue_sum (categoryRows counts revenues)
   = sum_list (map (\<lambda>k. or_zero (map_of revenues k)) (map fst counts))"
proof -
  have "amount (revenue (chart_row revenues e)) = or_zero (map_of revenues (fst e))" for e
    by (cases e) (simp add: chart_row_def amount_property_or_zero)
  then show ?thesis
    by (simp add: revenue_sum_def categoryRows_def sum_list_array_sort comp_def)
qed

lemma sum_lookup_eq_sum_filter:
  fixes R :: "(string \<times> rat) list"
  assumes "distinct (map fst R)" "finite K"
  shows "(\<Sum>k\<in>K. or_zero (map_of R k)) = sum_list (map snd (filter (\<lambda>(k, v). k \<in> K) R))"
  using assms(1)
proof (induction R)
  case Nil
  show ?case by (simp add: or_zero_def)
next
  case (Cons p R)
  obtain a v where p: "p = (a, v)" by (cases p)
  from Cons.prems p have fresh: "map_of R a = None" and dist: "distinct (map fst R)"
    by (auto simp: map_of_eq_None_iff)
  have split: "or_zero (map_of (p # R) k) = (if k = a then v else 0) + or_zero (map_of R k)" for k
    using fresh by (simp add: p or_zero_def)
  have "(\<Sum>k\<in>K. or_zero (map_of (p # R) k))
        = (\<Sum>k\<in>K. if k = a then v else 0) + (\<Sum>k\<in>K. or_zero (map_of R k))"
    by (simp only: split sum.distrib)
  also have "(\<Sum>k\<in>K. if k = a then v else 0) = (if a \<in> K then v else 0)"
    using \<open>finite K\<close> by simp
  also have "(\<Sum>k\<in>K. or_zero (map_of R k)) = sum_list (map snd (filter (\<lambda>(k, v). k \<in> K) R))"
    by (rule Cons.IH [OF dist])
  finally show ?case by (simp add: p)
qed

lemma revenue_sum_rows_eq:
  assumes "distinct (map fst counts)" "distinct (map fst revenues)"
  shows "revenue_sum (categoryRows counts revenues)
         = sum_list (map snd (filter (\<lambda>(k, v). k \<in> fst ` set counts) revenues))"
proof -
  have "revenue_sum (categoryRows counts revenues)
        = (\<Sum>k\<in>set (map fst counts). or_zero (map_of revenues k))"
    using assms(1) by (simp only: revenue_sum_categoryRows sum_list_distinct_conv_sum_set)
  also have "\<dots> = sum_list (map snd (filter (\<lambda>(k, v). k \<in> set (map fst counts)) revenues))"
    by (rule sum_lookup_eq_sum_filter [OF assms(2)]) simp
  finally show ?thesis by simp
qed

lemma filter_all_keys:
  "fst ` set R \<subseteq> K \<Longrightarrow> filter (\<lambda>(k, v). k \<in> K) R = R"
  by (induction R) auto

lemma sum_filter_le_total:
  fixes R :: "(string \<times> rat) list"
  shows "(\<And>v. v \<in> snd ` set R \<Longrightarrow> 0 \<le> v) \<Longrightarrow> sum_list (map snd (filter P R)) \<le> sum_list (map snd R)"
proof (induction R)
  case Nil
  show ?case by simp
next
  case (Cons p R)
  have "0 \<le> snd p" using Cons.prems by simp
  moreover have "sum_list (map snd (filter P R)) \<le> sum_list (map snd R)"
    using Cons.prems by (intro Cons.IH) simp
  ultimately show ?case by simp
qed

lemma sum_take_le:
  fixes g :: "'a \<Rightarrow> rat"
  assumes "\<And>x. x \<in> set xs \<Longrightarrow> 0 \<le> g x"
  shows "sum_list (map g (take n xs)) \<le> sum_list (map g xs)"
proof -
  have "sum_list (map g xs) = sum_list (map g (take n xs)) + sum_list (map g (drop n xs))"
    by (metis append_take_drop_id map_append sum_list_append)
  moreover have "0 \<le> sum_list (map g (drop n xs))"
    using assms by (intro sum_list_nonneg) (auto dest: in_set_dropD)
  ultimately show ?thesis by simp
qed

lemma revenue_rows_nonneg:
  assumes "\<And>v. v \<in> snd ` set revenues \<Longrightarrow> 0 \<le> v" "r \<in> set (categoryRows counts revenues)"
  shows "0 \<le> amount (revenue r)"
proof -
  from assms(2) obtain k n where "r = chart_row revenues (k, n)"
    by (auto simp: set_categoryRows)
  then have "amount (revenue r) = or_zero (map_of revenues k)"
    by (simp add: chart_row_def amount_property_or_zero)
  moreover have "0 \<le> or_zero (map_of revenues k)"
  proof (cases "map_of revenues k")
    case None
    then show ?thesis by (simp add: or_zero_def)
  next
    case (Some v)
    then have "v \<in> snd ` set revenues"
      by (metis map_of_SomeD snd_conv image_eqI)
    with assms(1) Some show ?thesis by (simp add: or_zero_def)
  qed
  ultimately show ?thesis by simp
qed

lemma topN_le_total:
  assumes "distinct (map fst counts)" "distinct (map fst revenues)"
    and nonneg: "\<And>v. v \<in> snd ` set revenues \<Longrightarrow> 0 \<le> v"
  shows "revenue_sum (take n (categoryRows counts revenues)) \<le> sum_list (map snd revenues)"
proof -
  have "revenue_sum (take n (categoryRows counts revenues))
        \<le> revenue_sum (categoryRows counts revenues)"
    unfolding revenue_sum_def by (rule sum_take_le) (rule revenue_rows_nonneg [OF nonneg])
  also have "\<dots> = sum_list (map snd (filter (\<lambda>(k, v). k \<in> fst ` set counts) revenues))"
    by (rule revenue_sum_rows_eq [OF assms(1,2)])
  also have "\<dots> \<le> sum_list (map snd revenues)"
    by (rule sum_filter_le_total [OF nonneg])
  finally show ?thesis .
qed

lemma categoryRows_numeric:
  assumes "no_inherited_keys counts revenues"
  shows "list_all (\<lambda>r. is_number (revenue r)) (categoryRows counts revenues)"
  using categoryRows_stable_desc [OF assms] by (simp add: stable_desc_by_revenue_def)

lemma take_numeric:
  "list_all (\<lambda>r. is_number (revenue r)) rows \<Longrightarrow> list_all (\<lambda>r. is_number (revenue r)) (take n rows)"
  by (auto simp: list_all_iff dest: in_set_takeD)

text \<open>
  C5 (as amended). For a payload whose mappings are well-formed objects (distinct keys)
  and in which no key of a counts mapping that the paired revenue mapping lacks is the
  name of a member inherited from \<^verbatim>\<open>Object.prototype\<close>: every row's revenue is a number;
  the revenues of the sold-by rows sum to the revenue-mapping values of the keys that the
  counts mapping has, hence to the sum of all values of the revenue mapping when each of
  its keys is a counts key; and when no revenue value is negative, the revenues of the
  zone rows (top 10) and of the lead-source rows (top 8) sum to at most the sum of all
  values of the paired revenue mapping.
\<close>

theorem breakdown_revenue_sums:
  "(distinct (map fst (by_sold_by s)) \<and> distinct (map fst (by_sold_by_revenue s)) \<and>
    no_inherited_keys (by_sold_by s) (by_sold_by_revenue s) \<longrightarrow>
     list_all (\<lambda>r. is_number (revenue r)) (prepareSoldByData (Some s)) \<and>
     revenue_sum (prepareSoldByData (Some s))
       = sum_list (map snd (filter (\<lambda>(k, v). k \<in> fst ` set (by_sold_by s))
                              (by_sold_by_revenue s))) \<and>
     (fst ` set (by_sold_by_revenue s) \<subseteq> fst ` set (by_sold_by s) \<longrightarrow>
        revenue_sum (prepareSoldByData (Some s)) = sum_list (map snd (by_sold_by_revenue s)))) \<and>
   (distinct (map fst (by_zone s)) \<and> distinct (map fst (by_zone_revenue s)) \<and>
    no_inherited_keys (by_zone s) (by_zone_revenue s) \<and>
    (\<forall>v\<in>snd ` set (by_zone_revenue s). 0 \<le> v) \<longrightarrow>
     list_all (\<lambda>r. is_number (revenue r)) (prepareZoneData (Some s)) \<and>
     revenue_sum (prepareZoneData (Some s)) \<le> sum_list (map snd (by_zone_revenue s))) \<and>
   (distinct (map fst (by_lead_source s)) \<and> distinct (map fst (by_lead_source_revenue s)) \<and>
    no_inherited_keys (by_lead_source s) (by_lead_source_revenue s) \<and>
    (\<forall>v\<in>snd ` set (by_lead_source_revenue s). 0 \<le> v) \<longrightarrow>
     list_all (\<lambda>r. is_number (revenue r)) (prepareLeadSourceData (Some s)) \<and>
     revenue_sum (prepareLeadSourceData (Some s))
       \<le> sum_list (map snd (by_lead_source_revenue s)))"
proof (intro conjI)
  show "distinct (map fst (by_sold_by s)) \<and> distinct (map fst (by_sold_by_revenue s)) \<and>
    no_inherited_keys (by_sold_by s) (by_sold_by_revenue s) \<longrightarrow>
     list_all (\<lambda>r. is_number (revenue r)) (prepareSoldByData (Some s)) \<and>
     revenue_sum (prepareSoldByData (Some s))
       = sum_list (map snd (filter (\<lambda>(k, v). k \<in> fst ` set (by_sold_by s))
                              (by_sold_by_revenue s))) \<and>
     (fst ` set (by_sold_by_revenue s) \<subseteq> fst ` set (by_sold_by s) \<longrightarrow>
        revenue_sum (prepareSoldByData (Some s)) = sum_list (map snd (by_sold_by_revenue s)))"
    by (simp add: prepareSoldByData_def revenue_sum_rows_eq filter_all_keys categoryRows_numeric)
  show "distinct (map fst (by_zone s)) \<and> distinct (map fst (by_zone_revenue s)) \<and>
    no_inherited_keys (by_zone s) (by_zone_revenue s) \<and>
    (\<forall>v\<in>snd ` set (by_zone_revenue s). 0 \<le> v) \<longrightarrow>
     list_all (\<lambda>r. is_number (revenue r)) (prepareZoneData (Some s)) \<and>
     revenue_sum (prepareZoneData (Some s)) \<le> sum_list (map snd (by_zone_revenue s))"
    by (auto simp: prepareZoneData_def intro!: topN_le_total take_numeric categoryRows_numeric)
  show "distinct (map fst (by_lead_source s)) \<and> distinct (map fst (by_lead_source_revenue s)) \<and>
    no_inherited_keys (by_lead_source s) (by_lead_source_revenue s) \<and>
    (\<forall>v\<in>snd ` set (by_lead_source_revenue s). 0 \<le> v) \<longrightarrow>
     list_all (\<lambda>r. is_number (revenue r)) (prepareLeadSourceData (Some s)) \<and>
     revenue_sum (prepareLeadSourceData (Some s))
       \<le> sum_list (map snd (by_lead_source_revenue s))"
    by (auto simp: prepareLeadSourceData_def
        intro!: topN_le_total take_numeric categoryRows_numeric)
qed

text \<open>
  The theorem at the payload of eleven zones, nine lead sources and three salespeople,
  all keys matching and no revenue negative: the sold-by rows sum to 1900, all of the
  mapping; the ten zone rows sum to 1200 of the mapping's 1205, the eight lead-source
  rows to 440 of the mapping's 450.
\<close>

theorem breakdown_revenue_sums_witness:
  "distinct (map fst (by_sold_by example_payload)) \<and>
   distinct (map fst (by_sold_by_revenue example_payload)) \<and>
   no_inherited_keys (by_sold_by example_payload) (by_sold_by_revenue example_payload) \<and>
   fst ` set (by_sold_by_revenue example_payload) \<subseteq> fst ` set (by_sold_by example_payload) \<and>
   revenue_sum (prepareSoldByData (Some example_payload)) = 1900 \<and>
   sum_list (map snd (by_sold_by_revenue example_payload)) = 1900 \<and>
   distinct (map fst (by_zone example_payload)) \<and>
   distinct (map fst (by_zone_revenue example_payload)) \<and>
   no_inherited_keys (by_zone example_payload) (by_zone_revenue example_payload) \<and>
   length (by_zone example_payload) = 11 \<and>
   length (prepareZoneData (Some example_payload)) = 10 \<and>
   revenue_sum (prepareZoneData (Some example_payload)) = 1200 \<and>
   sum_list (map snd (by_zone_revenue example_payload)) = 1205 \<and>
   distinct (map fst (by_lead_source example_payload)) \<and>
   distinct (map fst (by_lead_source_revenue example_payload)) \<and>
   no_inherited_keys (by_lead_source example_payload) (by_lead_source_revenue example_payload) \<and>
   length (by_lead_source example_payload) = 9 \<and>
   length (prepareLeadSourceData (Some example_payload)) = 8 \<and>
   revenue_sum (prepareLeadSourceData (Some example_payload)) = 440 \<and>
   sum_list (map snd (by_lead_source_revenue example_payload)) = 450"
  using breakdown_revenue_sums [of example_payload] example_no_inherited
  by (simp add: example_zone_rows example_lead_rows example_sold_rows revenue_sum_def amount_def)
     (simp add: example_payload_def)

text \<open>
  The claim as stated fails: a salesperson that only the revenue mapping lists is dropped
  (the rows sum to 500, the mapping to 1400); with a negative revenue in ninth place
  the top 8 lead-source rows sum to 80, more than the mapping's 75; and a salesperson
  called \<open>toString\<close> that the revenue mapping lacks gets an inherited function as the
  revenue, so that the revenues of the rows have no sum, where the mapping sums to 0.
\<close>

theorem breakdown_revenue_sum_counterexample:
  "revenue_sum (prepareSoldByData (Some
        \<lparr> monthly_trends = [], projected_sales = [],
           by_zone = [(''North'', 3), (''South'', 1)],
           by_zone_revenue = [(''North'', 1000), (''South'', 250)],
           by_lead_source = [(''L1'', 1), (''L2'', 1), (''L3'', 1), (''L4'', 1), (''L5'', 1),
                             (''L6'', 1), (''L7'', 1), (''L8'', 1), (''L9'', 1)],
           by_lead_source_revenue = [(''L1'', 10), (''L2'', 10), (''L3'', 10), (''L4'', 10),
                             (''L5'', 10), (''L6'', 10), (''L7'', 10), (''L8'', 10), (''L9'', -5)],
           by_sold_by = [(''Asha'', 2)],
           by_sold_by_revenue = [(''Asha'', 500), (''Ravi'', 900)] \<rparr>)) = 500 \<and>
   sum_list (map snd [(''Asha'', 500::rat), (''Ravi'', 900)]) = 1400 \<and>
   revenue_sum (prepareLeadSourceData (Some
        \<lparr> monthly_trends = [], projected_sales = [],
           by_zone = [(''North'', 3), (''South'', 1)],
           by_zone_revenue = [(''North'', 1000), (''South'', 250)],
           by_lead_source = [(''L1'', 1), (''L2'', 1), (''L3'', 1), (''L4'', 1), (''L5'', 1),
                             (''L6'', 1), (''L7'', 1), (''L8'', 1), (''L9'', 1)],
           by_lead_source_revenue = [(''L1'', 10), (''L2'', 10), (''L3'', 10), (''L4'', 10),
                             (''L5'', 10), (''L6'', 10), (''L7'', 10), (''L8'', 10), (''L9'', -5)],
           by_sold_by = [(''Asha'', 2)],
           by_sold_by_revenue = [(''Asha'', 500), (''Ravi'', 900)] \<rparr>)) = 80 \<and>
   sum_list (map snd [(''L1'', 10::rat), (''L2'', 10), (''L3'', 10), (''L4'', 10), (''L5'', 10),
                      (''L6'', 10), (''L7'', 10), (''L8'', 10), (''L9'', -5)]) = 75 \<and>
   prepareSoldByData
       (Some (example_payload\<lparr> by_sold_by := [(''toString'', 1)], by_sold_by_revenue := [] \<rparr>))
     = [\<lparr> count = 1, revenue = Inherited, name = ''toString'' \<rparr>]"
  by (simp add: prepareSoldByData_def prepareLeadSourceData_def categoryRows_def chart_row_def
      property_or_zero_def revenue_desc_def array_sort_def revenue_sum_def amount_def
      Object_prototype_keys_def)

section \<open>Properties of the monthly series\<close>

lemma monthKeys_prepareMonthlyData:
  "map monthKey (prepareMonthlyData fmt (Some s))
   = map month (monthly_trends s) @ map month (projected_sales s)"
  by (simp add: prepareMonthlyData_def Let_def comp_def)

lemma count_list_distinct_one: "distinct xs \<Longrightarrow> k \<in> set xs \<Longrightarrow> count_list xs k = 1"
  by (induction xs) auto

text \<open>
  C2 (as amended). The merged series has one row per entry of the actual series followed
  by one row per entry of the projected series: every month key of either series
  appears, as many times as the two series list it together. So a key appears exactly
  once when the keys are unique within each series and the series share no month, and a
  boundary month present in both series gets two rows.
\<close>

theorem monthly_merge_row_per_entry:
  "map monthKey (prepareMonthlyData fmt (Some s))
     = map month (monthly_trends s) @ map month (projected_sales s) \<and>
   set (map monthKey (prepareMonthlyData fmt (Some s)))
     = month ` set (monthly_trends s) \<union> month ` set (projected_sales s) \<and>
   (\<forall>k. count_list (map monthKey (prepareMonthlyData fmt (Some s))) k
        = count_list (map month (monthly_trends s)) k
          + count_list (map month (projected_sales s)) k) \<and>
   (distinct (map month (monthly_trends s)) \<and> distinct (map month (projected_sales s)) \<and>
    month ` set (monthly_trends s) \<inter> month ` set (projected_sales s) = {} \<longrightarrow>
    (\<forall>k. k \<in> month ` set (monthly_trends s) \<union> month ` set (projected_sales s) \<longrightarrow>
         count_list (map monthKey (prepareMonthlyData fmt (Some s))) k = 1))"
proof (intro conjI impI allI)
  show "map monthKey (prepareMonthlyData fmt (Some s))
     = map month (monthly_trends s) @ map month (projected_sales s)"
    by (rule monthKeys_prepareMonthlyData)
  show "set (map monthKey (prepareMonthlyData fmt (Some s)))
     = month ` set (monthly_trends s) \<union> month ` set (projected_sales s)"
    by (simp only: monthKeys_prepareMonthlyData set_append set_map)
  show "count_list (map monthKey (prepareMonthlyData fmt (Some s))) k
        = count_list (map month (monthly_trends s)) k
          + count_list (map month (projected_sales s)) k" for k
    by (simp only: monthKeys_prepareMonthlyData count_list_append)
next
  fix k
  assume h: "distinct (map month (monthly_trends s)) \<and> distinct (map month (projected_sales s)) \<and>
    month ` set (monthly_trends s) \<inter> month ` set (projected_sales s) = {}"
    and k: "k \<in> month ` set (monthly_trends s) \<union> month ` set (projected_sales s)"
  from h have "distinct (map month (monthly_trends s) @ map month (projected_sales s))"
    by simp
  moreover from k have "k \<in> set (map month (monthly_trends s) @ map month (projected_sales s))"
    by simp
  ultimately show "count_list (map monthKey (prepareMonthlyData fmt (Some s))) k = 1"
    by (simp only: monthKeys_prepareMonthlyData count_list_distinct_one)
qed

text \<open>
  The claim as stated fails at a boundary month: June 2025 is in both series and gets two
  rows.
\<close>

theorem monthly_merge_boundary_month_counterexample:
  "count_list (map monthKey (prepareMonthlyData (\<lambda>m. m)
     (Some \<lparr> monthly_trends = [\<lparr> count = 4, revenue = 400, month = ''2025-05'' \<rparr>,
                               \<lparr> count = 2, revenue = 250, month = ''2025-06'' \<rparr>],
             projected_sales = [\<lparr> count = 5, revenue = 500, month = ''2025-06'' \<rparr>,
                                \<lparr> count = 6, revenue = 600, month = ''2025-07'' \<rparr>],
             by_zone = [], by_zone_revenue = [],
             by_lead_source = [], by_lead_source_revenue = [],
             by_sold_by = [], by_sold_by_revenue = [] \<rparr>))) ''2025-06'' = 2"
  by (simp add: prepareMonthlyData_def Let_def)

text \<open>The theorem at two series that share no month: June 2025 gets one row.\<close>

theorem monthly_merge_row_per_entry_witness:
  "distinct (map month [\<lparr> count = 4, revenue = 400, month = ''2025-05'' \<rparr>,
                        \<lparr> count = 2, revenue = 250, month = ''2025-06'' \<rparr>]) \<and>
   distinct (map month [\<lparr> count = 6, revenue = 600, month = ''2025-07'' \<rparr>]) \<and>
   month ` set [\<lparr> count = 4, revenue = 400, month = ''2025-05'' \<rparr>,
                \<lparr> count = 2, revenue = 250, month = ''2025-06'' \<rparr>]
     \<inter> month ` set [\<lparr> count = 6, revenue = 600, month = ''2025-07'' \<rparr>] = {} \<and>
   ''2025-06'' \<in> month ` set [\<lparr> count = 4, revenue = 400, month = ''2025-05'' \<rparr>,
                \<lparr> count = 2, revenue = 250, month = ''2025-06'' \<rparr>]
     \<union> month ` set [\<lparr> count = 6, revenue = 600, month = ''2025-07'' \<rparr>] \<and>
   count_list (map monthKey (prepareMonthlyData (\<lambda>m. m)
     (Some \<lparr> monthly_trends = [\<lparr> count = 4, revenue = 400, month = ''2025-05'' \<rparr>,
                               \<lparr> count = 2, revenue = 250, month = ''2025-06'' \<rparr>],
             projected_sales = [\<lparr> count = 6, revenue = 600, month = ''2025-07'' \<rparr>],
             by_zone = [], by_zone_revenue = [],
             by_lead_source = [], by_lead_source_revenue = [],
             by_sold_by = [], by_sold_by_revenue = [] \<rparr>))) ''2025-06'' = 1"
  using monthly_merge_row_per_entry
    [of "\<lambda>m. m" "\<lparr> monthly_trends = [\<lparr> count = 4, revenue = 400, month = ''2025-05'' \<rparr>,
                               \<lparr> count = 2, revenue = 250, month = ''2025-06'' \<rparr>],
             projected_sales = [\<lparr> count = 6, revenue = 600, month = ''2025-07'' \<rparr>],
             by_zone = [], by_zone_revenue = [],
             by_lead_source = [], by_lead_source_revenue = [],
             by_sold_by = [], by_sold_by_revenue = [] \<rparr>"]
  by simp

section \<open>Properties of the warranty status\<close>

subsection \<open>Rounding to a double\<close>

lemma round_half_even_int: "round_half_even (of_int k) = k"
  by (simp add: round_half_even_def)

lemma round_half_even_error: "\<bar>of_int (round_half_even y) - y\<bar> \<le> 1 / 2"
proof -
  have "of_int \<lfloor>y\<rfloor> \<le> y" "y < of_int \<lfloor>y\<rfloor> + 1"
    by linarith+
  then show ?thesis
    by (auto simp: round_half_even_def Let_def)
qed

lemma binade_le:
  assumes "2 powi (-1022) \<le> \<bar>x\<bar>"
  shows "2 powi (binade x) \<le> \<bar>x\<bar>"
proof -
  define ks where "ks = filter (\<lambda>k. 2 powi k \<le> \<bar>x\<bar>) [-1022..1023]"
  have mem: "k \<in> set ks \<longleftrightarrow> (-1022 \<le> k \<and> k \<le> 1023) \<and> 2 powi k \<le> \<bar>x\<bar>" for k
    unfolding ks_def set_filter set_upto by simp
  have "(-1022::int) \<in> set ks"
    unfolding mem using assms by simp
  then have ne: "ks \<noteq> []"
    by (metis empty_iff list.set(1))
  then have "last ks \<in> set ks"
    by (rule last_in_set)
  then have "2 powi (last ks) \<le> \<bar>x\<bar>"
    unfolding mem by simp
  moreover have "binade x = last ks"
    using ne unfolding binade_def ks_def [symmetric] by (simp only: Let_def if_False)
  ultimately show ?thesis
    by simp
qed

lemma binade_le_52:
  assumes "2 powi (-1022) \<le> \<bar>x\<bar>" and "\<bar>x\<bar> < 2 ^ 53"
  shows "binade x \<le> 52"
proof -
  have "(2::rat) powi (binade x) < 2 powi 53"
    using binade_le [OF assms(1)] assms(2) by simp
  then have "binade x < 53"
    by (rule power_int_le_imp_less_exp [rotated]) simp_all
  then show ?thesis by simp
qed

lemma tiny_le_one: "(2::rat) powi (-1022) \<le> 1"
  using power_int_increasing [of "-1022" 0 "2::rat"] by simp

lemma to_double_int:
  assumes "\<bar>k\<bar> < 2 ^ 53"
  shows "to_double (of_int k) = of_int k"
proof (cases "k = 0")
  case True
  then show ?thesis
    by (simp add: to_double_def round_half_even_def)
next
  case False
  then have "(1::rat) \<le> \<bar>of_int k\<bar>"
  proof -
    from False have "1 \<le> \<bar>k\<bar>" by linarith
    then have "(of_int 1 :: rat) \<le> of_int \<bar>k\<bar>" by (simp only: of_int_le_iff)
    then show ?thesis by simp
  qed
  then have low: "2 powi (-1022) \<le> \<bar>of_int k :: rat\<bar>"
    using tiny_le_one by linarith
  have "\<bar>of_int k :: rat\<bar> < 2 ^ 53"
  proof -
    have "(of_int \<bar>k\<bar> :: rat) < of_int (2 ^ 53)" using assms by (simp only: of_int_less_iff)
    then show ?thesis by simp
  qed
  then have e: "binade (of_int k) \<le> 52"
    by (rule binade_le_52 [OF low])
  define n where "n = nat (52 - binade (of_int k))"
  have "binade (of_int k) - 52 = - int n"
    using e by (simp add: n_def)
  then have ulp: "(2::rat) powi (binade (of_int k) - 52) = 1 / 2 ^ n"
    by (simp add: power_int_minus_divide)
  have "of_int k / (1 / 2 ^ n) = (of_int (k * 2 ^ n) :: rat)"
    by simp
  then have "round_half_even (of_int k / (1 / 2 ^ n)) = k * 2 ^ n"
    by (simp only: round_half_even_int)
  then show ?thesis
    by (simp add: to_double_def ulp)
qed

lemma to_double_error:
  assumes "2 powi (-1022) \<le> \<bar>x\<bar>"
  shows "\<bar>to_double x - x\<bar> \<le> \<bar>x\<bar> / 2 ^ 53"
proof -
  define u :: rat where "u = 2 powi (binade x - 52)"
  have upos: "0 < u" by (simp add: u_def)
  have u: "u = 2 powi (binade x) / 2 ^ 52"
    by (simp add: u_def power_int_diff)
  have "to_double x - x = (of_int (round_half_even (x / u)) - x / u) * u"
    using upos by (simp add: to_double_def u_def [symmetric] algebra_simps)
  then have "\<bar>to_double x - x\<bar> = \<bar>of_int (round_half_even (x / u)) - x / u\<bar> * u"
    using upos by (simp add: abs_mult)
  also have "\<dots> \<le> (1 / 2) * u"
    using upos round_half_even_error [of "x / u"] by (intro mult_right_mono) simp_all
  also have "\<dots> = 2 powi (binade x) / 2 ^ 53"
    by (simp add: u)
  also have "\<dots> \<le> \<bar>x\<bar> / 2 ^ 53"
    using binade_le [OF assms] by (simp add: divide_right_mono)
  finally show ?thesis .
qed


lemma ceil_to_double_quotient:
  assumes x: "\<bar>x\<bar> < 2 ^ 53" and m: "0 < m" "m \<le> 2 ^ 62"
  shows "\<lceil>to_double (of_int x / of_int m)\<rceil> = \<lceil>(of_int x / of_int m :: rat)\<rceil>"
proof (cases "m dvd x")
  case True
  then obtain k where k: "x = m * k" ..
  have "\<bar>k\<bar> \<le> \<bar>x\<bar>"
  proof -
    have "1 * \<bar>k\<bar> \<le> m * \<bar>k\<bar>"
      using m by (intro mult_right_mono) simp_all
    then show ?thesis
      using m by (simp add: k abs_mult)
  qed
  with x have "\<bar>k\<bar> < 2 ^ 53" by linarith
  moreover have "(of_int x / of_int m :: rat) = of_int k"
    using m by (simp add: k)
  ultimately show ?thesis
    by (simp add: to_double_int)
next
  case False
  define M :: rat where "M = of_int m"
  define q :: rat where "q = of_int x / M"
  define n where "n = x div m"
  define r where "r = x mod m"
  have Mpos: "0 < M" using m by (simp add: M_def)
  have "0 \<le> r" "r < m" "r \<noteq> 0"
    using False m by (simp_all add: r_def dvd_eq_mod_eq_0)
  then have r: "0 < r" "r < m"
    by simp_all
  have "x = n * m + r"
    by (simp add: n_def r_def)
  then have "of_int x = of_int n * M + (of_int r :: rat)"
    by (simp add: M_def)
  then have q: "q = of_int n + of_int r / M"
    using Mpos by (simp add: q_def field_simps)
  have "(1::rat) \<le> of_int r" "(of_int r :: rat) \<le> M - 1"
    using r by (simp_all add: M_def)
  then have "1 / M \<le> of_int r / M" "of_int r / M \<le> (M - 1) / M"
    using Mpos by (simp_all add: divide_right_mono)
  moreover have "(M - 1) / M = 1 - 1 / M"
    using Mpos by (simp add: field_simps)
  ultimately have lo: "of_int n + 1 / M \<le> q" and hi: "q \<le> of_int n + 1 - 1 / M"
    by (simp_all add: q)
  have xne: "x \<noteq> 0" using False by auto
  then have "(1::rat) \<le> \<bar>of_int x\<bar>"
  proof -
    from xne have "1 \<le> \<bar>x\<bar>" by linarith
    then have "(of_int 1 :: rat) \<le> of_int \<bar>x\<bar>" by (simp only: of_int_le_iff)
    then show ?thesis by simp
  qed
  then have "1 / M \<le> \<bar>q\<bar>"
    using Mpos by (simp add: q_def divide_right_mono)
  moreover have "M \<le> 2 ^ 62"
  proof -
    have "(of_int m :: rat) \<le> of_int (2 ^ 62)" using m by (simp only: of_int_le_iff)
    then show ?thesis by (simp add: M_def)
  qed
  then have "1 / 2 ^ 62 \<le> 1 / M"
    using Mpos by (simp add: frac_le)
  moreover have "(2::rat) powi (-1022) \<le> 2 powi (-62)"
    by (rule power_int_increasing) simp_all
  then have "(2::rat) powi (-1022) \<le> 1 / 2 ^ 62"
    by (simp add: power_int_minus_divide)
  ultimately have low: "2 powi (-1022) \<le> \<bar>q\<bar>"
    by linarith
  have "\<bar>of_int x :: rat\<bar> < 2 ^ 53"
  proof -
    have "(of_int \<bar>x\<bar> :: rat) < of_int (2 ^ 53)" using x by (simp only: of_int_less_iff)
    then show ?thesis by simp
  qed
  then have "\<bar>q\<bar> < 2 ^ 53 / M"
    using Mpos by (simp add: q_def divide_strict_right_mono)
  then have "\<bar>q\<bar> / 2 ^ 53 < 1 / M"
    by (simp add: field_simps)
  with to_double_error [OF low] have err: "\<bar>to_double q - q\<bar> < 1 / M"
    by linarith
  from err lo have a: "of_int n < to_double q" by linarith
  from err hi have b: "to_double q < of_int n + 1" by linarith
  have "\<lceil>to_double q\<rceil> = n + 1"
    using a b by (intro ceiling_unique) simp_all
  moreover have "0 < 1 / M" using Mpos by simp
  with lo hi have "of_int n < q" "q < of_int n + 1" by linarith+
  then have "\<lceil>q\<rceil> = n + 1"
    by (intro ceiling_unique) simp_all
  ultimately show ?thesis
    by (simp add: q_def M_def)
qed

lemma sorted_le_last: "sorted xs \<Longrightarrow> x \<in> set xs \<Longrightarrow> x \<le> last (xs :: int list)"
  by (induction xs) auto

lemma binade_eq:
  assumes "2 powi n \<le> \<bar>x\<bar>" and "\<bar>x\<bar> < 2 powi (n + 1)" and "-1022 \<le> n" and "n \<le> 1023"
  shows "binade x = n"
proof -
  define ks where "ks = filter (\<lambda>k. 2 powi k \<le> \<bar>x\<bar>) [-1022..1023]"
  have mem: "k \<in> set ks \<longleftrightarrow> (-1022 \<le> k \<and> k \<le> 1023) \<and> 2 powi k \<le> \<bar>x\<bar>" for k
    unfolding ks_def set_filter set_upto by simp
  have n: "n \<in> set ks"
    unfolding mem using assms by simp
  then have ne: "ks \<noteq> []"
    by (metis empty_iff list.set(1))
  have "sorted ks"
    unfolding ks_def by (rule sorted_wrt_filter) (rule sorted_upto)
  then have le: "n \<le> last ks"
    using n by (rule sorted_le_last)
  have "last ks \<in> set ks"
    using ne by (rule last_in_set)
  then have "2 powi (last ks) \<le> \<bar>x\<bar>"
    unfolding mem by simp
  with assms(2) have lt: "(2::rat) powi (last ks) < 2 powi (n + 1)"
    by linarith
  have "last ks < n + 1"
  proof (rule ccontr)
    assume "\<not> last ks < n + 1"
    then have "n + 1 \<le> last ks"
      by simp
    then have "(2::rat) powi (n + 1) \<le> 2 powi (last ks)"
      by (rule power_int_increasing) simp
    with lt show False
      by simp
  qed
  with le have "last ks = n" by simp
  moreover have "binade x = last ks"
    using ne unfolding binade_def ks_def [symmetric] by (simp only: Let_def if_False)
  ultimately show ?thesis
    by simp
qed

lemma to_double_tie: "to_double 9007199308800001 = 9007199308800000"
proof -
  have b: "binade 9007199308800001 = 53"
    by (rule binade_eq) simp_all
  have "\<lfloor>(9007199308800001::rat) / 2\<rfloor> = 4503599654400000"
    by (rule floor_unique) simp_all
  then have "round_half_even (9007199308800001 / 2) = 4503599654400000"
    by (simp add: round_half_even_def Let_def)
  then show ?thesis
    by (simp add: to_double_def b)
qed

subsection \<open>The classification\<close>

lemma days_exact:
  assumes "\<bar>a - b\<bar> < 9007199254740992"
  shows "ceil_quotient (num_sub (Num a) (Num b)) (1000 * 60 * 60 * 24)
         = Num \<lceil>real_of_int (a - b) / 86400000\<rceil>"
proof -
  have x: "\<bar>a - b\<bar> < 2 ^ 53"
    using assms by simp
  then have "to_double (of_int (a - b)) = of_int (a - b)"
    by (rule to_double_int)
  then have "num_sub (Num a) (Num b) = Num (a - b)"
    unfolding num_sub_def by (simp del: of_int_diff)
  moreover have "\<lceil>to_double (of_int (a - b) / of_int 86400000)\<rceil>
                 = \<lceil>(of_int (a - b) / of_int 86400000 :: rat)\<rceil>"
    using x by (rule ceil_to_double_quotient) simp_all
  moreover have "\<lceil>(of_int (a - b) / of_int 86400000 :: rat)\<rceil>
                 = \<lceil>real_of_int (a - b) / real_of_int 86400000\<rceil>"
    by (simp only: ceiling_divide_eq_div)
  ultimately show ?thesis
    by (simp add: ceil_quotient_def)
qed

lemma expiry_step:
  "setFullYear h (Num t) (num_add (getFullYear h (Num t)) (Num 1))
   = TimeClip (Num (UTC h (MakeDate (MakeDay (YearFromTime (LocalTime h t) + 1) (MonthFromTime (LocalTime h t))
                                  (DateFromTime (LocalTime h t)))
                         (TimeWithinDay (LocalTime h t)))))"
  by (simp add: setFullYear_def getFullYear_def num_add_def Let_def)

lemma calc_parsed:
  assumes "\<not> falsy (date_of_delivery r)" and "new_Date h (the (date_of_delivery r)) = Num t"
    and "\<bar>e\<bar> \<le> 8640000000000000" and "\<bar>e - Date_now h\<bar> < 9007199254740992"
    and "e = UTC h (MakeDate (MakeDay (YearFromTime (LocalTime h t) + 1) (MonthFromTime (LocalTime h t))
                                  (DateFromTime (LocalTime h t)))
                         (TimeWithinDay (LocalTime h t)))"
  shows "calculateWarrantyStatus h r =
     (let d = \<lceil>real_of_int (e - Date_now h) / 86400000\<rceil>
      in if d < 0 then \<lparr> status = out_of_warranty, expiry = Some (Num e), daysRemaining = Num \<bar>d\<bar> \<rparr>
         else if d \<le> 30 then \<lparr> status = expiring_soon, expiry = Some (Num e), daysRemaining = Num d \<rparr>
         else \<lparr> status = in_warranty, expiry = Some (Num e), daysRemaining = Num d \<rparr>)"
proof -
  have "setFullYear h (Num t) (num_add (getFullYear h (Num t)) (Num 1)) = Num e"
    using assms(3) unfolding expiry_step assms(5) [symmetric] by (simp add: TimeClip_def)
  then show ?thesis
    using assms(1,2) days_exact [OF assms(4)]
    by (simp add: calculateWarrantyStatus_def Let_def num_less_def num_le_def Math_abs_def)
qed

lemma classification_cases:
  assumes "w = (if d < 0 then \<lparr> status = out_of_warranty, expiry = Some (Num e), daysRemaining = Num \<bar>d\<bar> \<rparr>
         else if d \<le> 30 then \<lparr> status = expiring_soon, expiry = Some (Num e), daysRemaining = Num d \<rparr>
         else \<lparr> status = in_warranty, expiry = Some (Num e), daysRemaining = Num d \<rparr>)"
  shows "expiry w = Some (Num e) \<and>
         (d < 0 \<longrightarrow> status w = out_of_warranty \<and> daysRemaining w = Num \<bar>d\<bar>) \<and>
         (0 \<le> d \<and> d \<le> 30 \<longrightarrow> status w = expiring_soon \<and> daysRemaining w = Num d) \<and>
         (30 < d \<longrightarrow> status w = in_warranty \<and> daysRemaining w = Num d) \<and>
         (d = 30 \<longrightarrow> status w = expiring_soon) \<and>
         (d = 31 \<longrightarrow> status w = in_warranty) \<and>
         (d = 0 \<longrightarrow> status w = expiring_soon) \<and>
         (d = -1 \<longrightarrow> status w = out_of_warranty)"
  by (simp add: assms)

text \<open>
  C1 (as amended). For a record whose delivery date the host parses to a valid date with
  time value \<open>t\<close>, and a clock reading: let the expiry \<open>e\<close> be the local calendar date
  and time of day of \<open>t\<close> with the year incremented by one (as \<^verbatim>\<open>setFullYear\<close> does it: a
  29 February lands on 1 March), and \<open>d\<close> the ceiling of expiry minus now in days. When
  \<open>e\<close> is still in the range of \<^verbatim>\<open>Date\<close> (8.64e15 ms either side of the epoch) and less
  than \<open>2 ^ 53\<close> ms from the clock reading, the function returns the expiry \<open>e\<close>, and the
  status is \<open>out_of_warranty\<close> with \<open>\<bar>d\<bar>\<close> days reported when \<open>d < 0\<close>, \<open>expiring_soon\<close>
  when \<open>0 \<le> d \<le> 30\<close>, and \<open>in_warranty\<close> when \<open>d > 30\<close>; so 30 and 0 give
  \<open>expiring_soon\<close>, 31 gives \<open>in_warranty\<close> and -1 gives \<open>out_of_warranty\<close>.
\<close>

theorem warranty_classification:
  assumes "date_of_delivery r = Some s" and "s \<noteq> []" and "new_Date h s = Num t"
  shows
    "(let lt = LocalTime h t;
          e = UTC h (MakeDate (MakeDay (YearFromTime lt + 1) (MonthFromTime lt) (DateFromTime lt))
                              (TimeWithinDay lt));
          d = \<lceil>real_of_int (e - Date_now h) / 86400000\<rceil>;
          w = calculateWarrantyStatus h r
      in \<bar>e\<bar> \<le> 8640000000000000 \<and> \<bar>e - Date_now h\<bar> < 9007199254740992 \<longrightarrow>
         expiry w = Some (Num e) \<and>
         (d < 0 \<longrightarrow> status w = out_of_warranty \<and> daysRemaining w = Num \<bar>d\<bar>) \<and>
         (0 \<le> d \<and> d \<le> 30 \<longrightarrow> status w = expiring_soon \<and> daysRemaining w = Num d) \<and>
         (30 < d \<longrightarrow> status w = in_warranty \<and> daysRemaining w = Num d) \<and>
         (d = 30 \<longrightarrow> status w = expiring_soon) \<and>
         (d = 31 \<longrightarrow> status w = in_warranty) \<and>
         (d = 0 \<longrightarrow> status w = expiring_soon) \<and>
         (d = -1 \<longrightarrow> status w = out_of_warranty))"
proof -
  let ?e = "UTC h (MakeDate (MakeDay (YearFromTime (LocalTime h t) + 1) (MonthFromTime (LocalTime h t))
                                  (DateFromTime (LocalTime h t)))
                         (TimeWithinDay (LocalTime h t)))"
  have a: "\<not> falsy (date_of_delivery r)" and b: "new_Date h (the (date_of_delivery r)) = Num t"
    using assms by (simp_all add: falsy_def)
  show ?thesis
    unfolding Let_def
  proof (intro impI, elim conjE)
    assume "\<bar>?e\<bar> \<le> 8640000000000000" and "\<bar>?e - Date_now h\<bar> < 9007199254740992"
    from calc_parsed [OF a b this refl, unfolded Let_def]
    show "expiry (calculateWarrantyStatus h r) = Some (Num ?e) \<and>
         (\<lceil>real_of_int (?e - Date_now h) / 86400000\<rceil> < 0 \<longrightarrow>
            status (calculateWarrantyStatus h r) = out_of_warranty \<and>
            daysRemaining (calculateWarrantyStatus h r)
              = Num \<bar>\<lceil>real_of_int (?e - Date_now h) / 86400000\<rceil>\<bar>) \<and>
         (0 \<le> \<lceil>real_of_int (?e - Date_now h) / 86400000\<rceil> \<and>
          \<lceil>real_of_int (?e - Date_now h) / 86400000\<rceil> \<le> 30 \<longrightarrow>
            status (calculateWarrantyStatus h r) = expiring_soon \<and>
            daysRemaining (calculateWarrantyStatus h r)
              = Num \<lceil>real_of_int (?e - Date_now h) / 86400000\<rceil>) \<and>
         (30 < \<lceil>real_of_int (?e - Date_now h) / 86400000\<rceil> \<longrightarrow>
            status (calculateWarrantyStatus h r) = in_warranty \<and>
            daysRemaining (calculateWarrantyStatus h r)
              = Num \<lceil>real_of_int (?e - Date_now h) / 86400000\<rceil>) \<and>
         (\<lceil>real_of_int (?e - Date_now h) / 86400000\<rceil> = 30 \<longrightarrow>
            status (calculateWarrantyStatus h r) = expiring_soon) \<and>
         (\<lceil>real_of_int (?e - Date_now h) / 86400000\<rceil> = 31 \<longrightarrow>
            status (calculateWarrantyStatus h r) = in_warranty) \<and>
         (\<lceil>real_of_int (?e - Date_now h) / 86400000\<rceil> = 0 \<longrightarrow>
            status (calculateWarrantyStatus h r) = expiring_soon) \<and>
         (\<lceil>real_of_int (?e - Date_now h) / 86400000\<rceil> = -1 \<longrightarrow>
            status (calculateWarrantyStatus h r) = out_of_warranty)"
      by (rule classification_cases)
  qed
qed

lemma example_local: "LocalTime (example_host n) 1736899200000 = 1736919000000"
  by (simp add: LocalTime_def example_host_def)

lemma example_civil:
  "YearFromTime 1736919000000 = 2025" "MonthFromTime 1736919000000 = 0"
  "DateFromTime 1736919000000 = 15" "TimeWithinDay 1736919000000 = 19800000"
  "MakeDay 2026 0 15 = 20468"
  by code_simp+

lemma example_expiry:
  "UTC (example_host n) (MakeDate (MakeDay (YearFromTime (LocalTime (example_host n) 1736899200000) + 1)
       (MonthFromTime (LocalTime (example_host n) 1736899200000))
       (DateFromTime (LocalTime (example_host n) 1736899200000)))
     (TimeWithinDay (LocalTime (example_host n) 1736899200000))) = 1768435200000"
  by (simp add: example_local example_civil) (simp add: UTC_def MakeDate_def msPerDay_def example_host_def)

lemma ceiling_minus_one_real: "\<lceil>- 1 :: real\<rceil> = - 1"
  using ceiling_of_int [of "- 1", where ?'a = real] by simp

lemma leap_local: "LocalTime (example_host n) 1709164800000 = 1709184600000"
  by (simp add: LocalTime_def example_host_def)

lemma leap_civil:
  "YearFromTime 1709184600000 = 2024" "MonthFromTime 1709184600000 = 1"
  "DateFromTime 1709184600000 = 29" "TimeWithinDay 1709184600000 = 19800000"
  "MakeDay 2025 1 29 = 20148" "civil_from_days 20148 = (2025, 2, 1)"
  by code_simp+

lemma leap_expiry:
  "UTC (example_host n) (MakeDate (MakeDay (YearFromTime (LocalTime (example_host n) 1709164800000) + 1)
       (MonthFromTime (LocalTime (example_host n) 1709164800000))
       (DateFromTime (LocalTime (example_host n) 1709164800000)))
     (TimeWithinDay (LocalTime (example_host n) 1709164800000))) = 1740787200000"
  by (simp add: leap_local leap_civil) (simp add: UTC_def MakeDate_def msPerDay_def example_host_def)
text \<open>
  The theorem at a delivery on 2025-01-15 (expiry 2026-01-15T00:00Z, 1768435200000 ms),
  with the clock 30 days before the expiry, one millisecond earlier (31 days), at the
  expiry (0 days), one day after it (-1, reported as 1) and 400 days after the delivery
  (35 days out of warranty); and at a delivery on 2024-02-29, whose expiry is
  2025-03-01T00:00Z (1740787200000 ms).
\<close>

theorem warranty_classification_witness:
  "date_of_delivery (example_record (Some ''2025-01-15'')) = Some ''2025-01-15'' \<and>
   new_Date (example_host 0) ''2025-01-15'' = Num 1736899200000 \<and>
   status (calculateWarrantyStatus (example_host 1765843200000) (example_record (Some ''2025-01-15''))) = expiring_soon \<and>
   daysRemaining (calculateWarrantyStatus (example_host 1765843200000) (example_record (Some ''2025-01-15''))) = Num 30 \<and>
   expiry (calculateWarrantyStatus (example_host 1765843200000) (example_record (Some ''2025-01-15''))) = Some (Num 1768435200000) \<and>
   status (calculateWarrantyStatus (example_host 1765843199999) (example_record (Some ''2025-01-15''))) = in_warranty \<and>
   daysRemaining (calculateWarrantyStatus (example_host 1765843199999) (example_record (Some ''2025-01-15''))) = Num 31 \<and>
   status (calculateWarrantyStatus (example_host 1768435200000) (example_record (Some ''2025-01-15''))) = expiring_soon \<and>
   daysRemaining (calculateWarrantyStatus (example_host 1768435200000) (example_record (Some ''2025-01-15''))) = Num 0 \<and>
   status (calculateWarrantyStatus (example_host 1768521600000) (example_record (Some ''2025-01-15''))) = out_of_warranty \<and>
   daysRemaining (calculateWarrantyStatus (example_host 1768521600000) (example_record (Some ''2025-01-15''))) = Num 1 \<and>
   status (calculateWarrantyStatus (example_host 1771459200000) (example_record (Some ''2025-01-15''))) = out_of_warranty \<and>
   daysRemaining (calculateWarrantyStatus (example_host 1771459200000) (example_record (Some ''2025-01-15''))) = Num 35 \<and>
   new_Date (example_host 0) ''2024-02-29'' = Num 1709164800000 \<and>
   expiry (calculateWarrantyStatus (example_host 1736899200000) (example_record (Some ''2024-02-29''))) = Some (Num 1740787200000) \<and>
   status (calculateWarrantyStatus (example_host 1736899200000) (example_record (Some ''2024-02-29''))) = in_warranty \<and>
   daysRemaining (calculateWarrantyStatus (example_host 1736899200000) (example_record (Some ''2024-02-29''))) = Num 45"
  using
    warranty_classification [of "example_record (Some ''2025-01-15'')" "''2025-01-15''" "example_host 1765843200000" 1736899200000]
    warranty_classification [of "example_record (Some ''2025-01-15'')" "''2025-01-15''" "example_host 1765843199999" 1736899200000]
    warranty_classification [of "example_record (Some ''2025-01-15'')" "''2025-01-15''" "example_host 1768435200000" 1736899200000]
    warranty_classification [of "example_record (Some ''2025-01-15'')" "''2025-01-15''" "example_host 1768521600000" 1736899200000]
    warranty_classification [of "example_record (Some ''2025-01-15'')" "''2025-01-15''" "example_host 1771459200000" 1736899200000]
    warranty_classification [of "example_record (Some ''2024-02-29'')" "''2024-02-29''" "example_host 1736899200000" 1709164800000]
  unfolding Let_def example_expiry leap_expiry
  by (simp add: example_host_def example_record_def new_Date_def TimeClip_def
      ceiling_minus_one_real)

lemma last_day_local: "LocalTime (example_host n) 8640000000000000 = 8640000019800000"
  by (simp add: LocalTime_def example_host_def)

lemma last_day_civil:
  "YearFromTime 8640000019800000 = 275760" "MonthFromTime 8640000019800000 = 8"
  "DateFromTime 8640000019800000 = 13" "TimeWithinDay 8640000019800000 = 19800000"
  "MakeDay 275761 8 13 = 100000365"
  by code_simp+

lemma last_day_expiry:
  "setFullYear (example_host n) (Num 8640000000000000)
     (num_add (getFullYear (example_host n) (Num 8640000000000000)) (Num 1)) = NaN"
  by (simp add: expiry_step last_day_local last_day_civil)
    (simp add: TimeClip_def UTC_def MakeDate_def msPerDay_def example_host_def)

lemma far_local: "LocalTime (example_host n) 568971820800000 = 568971840600000"
  by (simp add: LocalTime_def example_host_def)

lemma far_civil:
  "YearFromTime 568971840600000 = 20000" "MonthFromTime 568971840600000 = 0"
  "DateFromTime 568971840600000 = 1" "TimeWithinDay 568971840600000 = 19800000"
  "MakeDay 20001 0 1 = 6585688"
  by code_simp+

lemma far_expiry:
  "setFullYear (example_host n) (Num 568971820800000)
     (num_add (getFullYear (example_host n) (Num 568971820800000)) (Num 1))
   = Num 569003443200000"
  by (simp add: expiry_step far_local far_civil)
    (simp add: TimeClip_def UTC_def MakeDate_def msPerDay_def example_host_def)

lemma far_difference:
  "num_sub (Num 569003443200000) (Num (- 8438195865600001)) = Num 9007199308800000"
  by (simp add: num_sub_def to_double_tie)

lemma far_days: "ceil_quotient (Num 9007199308800000) 86400000 = Num 104249992"
proof -
  have q: "(of_int 9007199308800000 / of_int 86400000 :: rat) = of_int 104249992"
    by simp
  have t: "to_double (of_int 104249992) = of_int 104249992"
    by (rule to_double_int) simp
  show ?thesis
    by (simp only: ceil_quotient_def number.case q t ceiling_of_int)
qed

text \<open>
  The claim as stated fails at the ends of the range of \<^verbatim>\<open>Date\<close>. A delivery on the last
  day that a \<^verbatim>\<open>Date\<close> holds is parsed, but a year later is no date: the expiry is
  invalid, the day count is \<open>NaN\<close> and the status \<open>in_warranty\<close>. And for a delivery on
  the first day of the year 20000, with a clock reading 9007199308800001 ms before the
  expiry, the difference is rounded to the next double, one millisecond less, which is
  104249992 days exactly: that is the count returned, where the ceiling of expiry minus
  now in days is 104249993.
\<close>

theorem warranty_date_range_counterexample:
  "new_Date (example_host 1765843200000) ''+275760-09-13T00:00:00.000Z'' = Num 8640000000000000 \<and>
   calculateWarrantyStatus (example_host 1765843200000)
       (example_record (Some ''+275760-09-13T00:00:00.000Z''))
     = \<lparr> status = in_warranty, expiry = Some NaN, daysRemaining = NaN \<rparr> \<and>
   new_Date (example_host (- 8438195865600001)) ''+020000-01-01T00:00:00.000Z''
     = Num 568971820800000 \<and>
   calculateWarrantyStatus (example_host (- 8438195865600001))
       (example_record (Some ''+020000-01-01T00:00:00.000Z''))
     = \<lparr> status = in_warranty, expiry = Some (Num 569003443200000),
         daysRemaining = Num 104249992 \<rparr> \<and>
   \<lceil>real_of_int (569003443200000 - (- 8438195865600001)) / 86400000\<rceil> = 104249993"
proof -
  have a: "new_Date (example_host n) ''+275760-09-13T00:00:00.000Z'' = Num 8640000000000000" for n
    by (simp add: new_Date_def TimeClip_def example_host_def)
  have b: "new_Date (example_host n) ''+020000-01-01T00:00:00.000Z'' = Num 568971820800000" for n
    by (simp add: new_Date_def TimeClip_def example_host_def)
  have c: "Date_now (example_host n) = n" for n
    by (simp add: example_host_def)
  have "calculateWarrantyStatus (example_host 1765843200000)
       (example_record (Some ''+275760-09-13T00:00:00.000Z''))
     = \<lparr> status = in_warranty, expiry = Some NaN, daysRemaining = NaN \<rparr>"
    by (simp add: calculateWarrantyStatus_def falsy_def example_record_def a last_day_expiry
        num_sub_def ceil_quotient_def num_less_def num_le_def)
  moreover have "calculateWarrantyStatus (example_host (- 8438195865600001))
       (example_record (Some ''+020000-01-01T00:00:00.000Z''))
     = \<lparr> status = in_warranty, expiry = Some (Num 569003443200000),
         daysRemaining = Num 104249992 \<rparr>"
    by (simp add: calculateWarrantyStatus_def falsy_def example_record_def b c far_expiry
        far_difference far_days num_less_def num_le_def)
  moreover have "\<lceil>real_of_int (569003443200000 - (- 8438195865600001)) / 86400000\<rceil> = 104249993"
    by simp
  ultimately show ?thesis
    using a b by simp
qed

text \<open>
  C4 (as amended). When the delivery date is absent (\<^verbatim>\<open>null\<close>, missing or the empty
  string) the evaluator does not fail: it returns the classification \<open>out_of_warranty\<close>
  with a \<^verbatim>\<open>null\<close> expiry and 0 days, whatever the host and the clock; the \<^verbatim>\<open>null\<close>
  expiry is what tells the caller that there is no warranty data.
\<close>

theorem warranty_absent_date:
  "falsy (date_of_delivery r) \<longrightarrow>
     calculateWarrantyStatus h r = \<lparr> status = out_of_warranty, expiry = None, daysRemaining = Num 0 \<rparr>"
  by (simp add: calculateWarrantyStatus_def)

text \<open>The theorem at a record with no delivery date, and at one with an empty string.\<close>

theorem warranty_absent_date_witness:
  "falsy (date_of_delivery (example_record None)) \<and>
   calculateWarrantyStatus (example_host 1765843200000) (example_record None)
     = \<lparr> status = out_of_warranty, expiry = None, daysRemaining = Num 0 \<rparr> \<and>
   falsy (date_of_delivery (example_record (Some ''''))) \<and>
   calculateWarrantyStatus (example_host 1765843200000) (example_record (Some ''''))
     = \<lparr> status = out_of_warranty, expiry = None, daysRemaining = Num 0 \<rparr>"
  using warranty_absent_date [of "example_record None" "example_host 1765843200000"]
    warranty_absent_date [of "example_record (Some '''')" "example_host 1765843200000"]
  by (simp add: falsy_def example_record_def)

text \<open>
  The claim as stated fails: with no delivery date the result is one of the three
  classifications, \<open>out_of_warranty\<close>; and a delivery date that the host cannot parse
  is classified \<open>in_warranty\<close>, with an invalid expiry date and \<open>NaN\<close> days.
\<close>

theorem warranty_invalid_date_counterexample:
  "status (calculateWarrantyStatus (example_host 1765843200000) (example_record None)) = out_of_warranty \<and>
   calculateWarrantyStatus (example_host 1765843200000) (example_record (Some ''not a date''))
     = \<lparr> status = in_warranty, expiry = Some NaN, daysRemaining = NaN \<rparr>"
  by (simp add: calculateWarrantyStatus_def falsy_def example_record_def example_host_def
      new_Date_def TimeClip_def getFullYear_def setFullYear_def num_add_def num_sub_def
      ceil_quotient_def num_less_def num_le_def)

lemma date_ops_same_zone:
  assumes "LocalTZA h1 = LocalTZA h2"
  shows "getFullYear h1 d = getFullYear h2 d" and "setFullYear h1 d y = setFullYear h2 d y"
  using assms
  by (simp_all add: getFullYear_def setFullYear_def LocalTime_def UTC_def split: number.splits)

text \<open>
  C6 (as amended). The evaluator takes no \<^verbatim>\<open>now\<close> parameter: it reads the system clock
  itself. It returns a value and changes nothing, and the value is determined by the
  delivery date of the record, the clock reading and the host's date parser and time
  zone: two evaluations that agree on these give the same result, whatever else differs
  in the records.
\<close>

theorem warranty_determined_by_date_and_host:
  "date_of_delivery r1 = date_of_delivery r2 \<and> Date_parse h1 = Date_parse h2 \<and>
   LocalTZA h1 = LocalTZA h2 \<and> Date_now h1 = Date_now h2 \<longrightarrow>
     calculateWarrantyStatus h1 r1 = calculateWarrantyStatus h2 r2"
proof
  assume h: "date_of_delivery r1 = date_of_delivery r2 \<and> Date_parse h1 = Date_parse h2 \<and>
   LocalTZA h1 = LocalTZA h2 \<and> Date_now h1 = Date_now h2"
  then have "getFullYear h1 = getFullYear h2" and "setFullYear h1 = setFullYear h2"
    and "new_Date h1 = new_Date h2"
    by (auto intro!: date_ops_same_zone simp: new_Date_def)
  with h show "calculateWarrantyStatus h1 r1 = calculateWarrantyStatus h2 r2"
    by (simp add: calculateWarrantyStatus_def)
qed

text \<open>The theorem at two records that differ in id and client name only.\<close>

theorem warranty_determined_by_date_and_host_witness:
  "date_of_delivery (example_record (Some ''2025-01-15''))
     = date_of_delivery ((example_record (Some ''2025-01-15''))\<lparr> id_no := 8, client_name := ''Ravi'' \<rparr>) \<and>
   calculateWarrantyStatus (example_host 1765843200000) (example_record (Some ''2025-01-15''))
     = calculateWarrantyStatus (example_host 1765843200000)
         ((example_record (Some ''2025-01-15''))\<lparr> id_no := 8, client_name := ''Ravi'' \<rparr>)"
  using warranty_determined_by_date_and_host
    [of "example_record (Some ''2025-01-15'')"
        "(example_record (Some ''2025-01-15''))\<lparr> id_no := 8, client_name := ''Ravi'' \<rparr>"
        "example_host 1765843200000" "example_host 1765843200000"]
  by simp

lemma example_status_at:
  assumes "\<bar>1768435200000 - n\<bar> < 9007199254740992"
  shows "calculateWarrantyStatus (example_host n) (example_record (Some ''2025-01-15''))
   = (let d = \<lceil>real_of_int (1768435200000 - n) / 86400000\<rceil>
      in if d < 0 then \<lparr> status = out_of_warranty, expiry = Some (Num 1768435200000), daysRemaining = Num \<bar>d\<bar> \<rparr>
         else if d \<le> 30 then \<lparr> status = expiring_soon, expiry = Some (Num 1768435200000), daysRemaining = Num d \<rparr>
         else \<lparr> status = in_warranty, expiry = Some (Num 1768435200000), daysRemaining = Num d \<rparr>)"
proof -
  have a: "\<not> falsy (date_of_delivery (example_record (Some ''2025-01-15'')))"
    by (simp add: falsy_def example_record_def)
  have b: "new_Date (example_host n) (the (date_of_delivery (example_record (Some ''2025-01-15''))))
           = Num 1736899200000"
    by (simp add: example_record_def example_host_def new_Date_def TimeClip_def)
  have c: "Date_now (example_host n) = n"
    by (simp add: example_host_def)
  have d: "\<bar>1768435200000 :: int\<bar> \<le> 8640000000000000"
    by simp
  have e: "\<bar>1768435200000 - Date_now (example_host n)\<bar> < 9007199254740992"
    using assms by (simp only: c)
  show ?thesis
    using calc_parsed [OF a b d e example_expiry [symmetric]] unfolding c .
qed

text \<open>
  The claim as stated fails: the same record, evaluated twice with nothing that a caller
  could pass changed, is \<open>expiring_soon\<close> at one clock reading and \<open>out_of_warranty\<close> at
  a later one.
\<close>

theorem warranty_reads_clock_counterexample:
  "calculateWarrantyStatus (example_host 1765843200000) (example_record (Some ''2025-01-15''))
     = \<lparr> status = expiring_soon, expiry = Some (Num 1768435200000), daysRemaining = Num 30 \<rparr> \<and>
   calculateWarrantyStatus (example_host 1771459200000) (example_record (Some ''2025-01-15''))
     = \<lparr> status = out_of_warranty, expiry = Some (Num 1768435200000), daysRemaining = Num 35 \<rparr>"
  by (simp add: example_status_at)

section \<open>Properties of the record history\<close>

text \<open>
  C8. If the current record has no phone, the history resolver sets the history to the
  empty list, changes nothing else and sends no request. If the request fails, it leaves
  the history empty and \<^verbatim>\<open>loading\<close> cleared, keeps the current record, and reports the
  failure on the console; it returns normally on both paths.
\<close>

theorem history_resolver_empty_on_no_phone_or_failure:
  "(falsy (client_phone (currentRecord st)) \<longrightarrow>
      fetchRelatedRecords api st = (st\<lparr> relatedRecords := [] \<rparr>, [])) \<and>
   (\<not> falsy (client_phone (currentRecord st)) \<and>
    get_history api (the (client_phone (currentRecord st))) (id_no (currentRecord st)) 10 = Inl e \<longrightarrow>
      fetchRelatedRecords api st
        = (st\<lparr> relatedRecords := [], loading := False \<rparr>,
           [Requested (GetHistory (the (client_phone (currentRecord st)))
                                  (id_no (currentRecord st)) 10),
            ConsoleError ''Error fetching related records:'']))"
  by (simp add: fetchRelatedRecords_def Let_def)

text \<open>
  The theorem at a record without a phone, and at the record of phone 555-1234 and id 7
  when the backend is unreachable.
\<close>

theorem history_resolver_empty_on_no_phone_or_failure_witness:
  "falsy (client_phone (currentRecord
      \<lparr> currentRecord = (example_record None)\<lparr> client_phone := None \<rparr>,
        relatedRecords = [example_record None], loading = False \<rparr>)) \<and>
   fetchRelatedRecords
      \<lparr> get_history = (\<lambda>phone exclude_id limit. Inl NetworkFailure),
        get_record = (\<lambda>i. Inl NetworkFailure) \<rparr>
      \<lparr> currentRecord = (example_record None)\<lparr> client_phone := None \<rparr>,
        relatedRecords = [example_record None], loading = False \<rparr>
     = (\<lparr> currentRecord = (example_record None)\<lparr> client_phone := None \<rparr>,
          relatedRecords = [], loading = False \<rparr>, []) \<and>
   \<not> falsy (client_phone (currentRecord
      \<lparr> currentRecord = example_record None,
        relatedRecords = [example_record None], loading = False \<rparr>)) \<and>
   fetchRelatedRecords
      \<lparr> get_history = (\<lambda>phone exclude_id limit. Inl NetworkFailure),
        get_record = (\<lambda>i. Inl NetworkFailure) \<rparr>
      \<lparr> currentRecord = example_record None,
        relatedRecords = [example_record None], loading = False \<rparr>
     = (\<lparr> currentRecord = example_record None, relatedRecords = [], loading = False \<rparr>,
        [Requested (GetHistory ''555-1234'' 7 10),
         ConsoleError ''Error fetching related records:''])"
  using
    history_resolver_empty_on_no_phone_or_failure
      [of "\<lparr> currentRecord = (example_record None)\<lparr> client_phone := None \<rparr>,
             relatedRecords = [example_record None], loading = False \<rparr>"
          "\<lparr> get_history = (\<lambda>phone exclude_id limit. Inl NetworkFailure),
             get_record = (\<lambda>i. Inl NetworkFailure) \<rparr>" NetworkFailure]
    history_resolver_empty_on_no_phone_or_failure
      [of "\<lparr> currentRecord = example_record None,
             relatedRecords = [example_record None], loading = False \<rparr>"
          "\<lparr> get_history = (\<lambda>phone exclude_id limit. Inl NetworkFailure),
             get_record = (\<lambda>i. Inl NetworkFailure) \<rparr>" NetworkFailure]
  by (simp add: falsy_def example_record_def)

text \<open>
  C9. Switching to a related record: when its detail is fetched, it becomes the current
  record and the history is set to the empty list; when the fetch fails, the state is
  left as it was (the displayed record stays), the failure is written to the console,
  and the edit flow is opened for the id that was clicked (\<^verbatim>\<open>onEdit\<close>, then \<^verbatim>\<open>onClose\<close>).
\<close>

theorem switch_record_replaces_or_falls_back:
  "(get_record api (id_no relatedRecord) = Inr data \<longrightarrow>
      handleViewRelatedRecord api st relatedRecord
        = (st\<lparr> currentRecord := data, relatedRecords := [] \<rparr>,
           [Requested (GetRecord (id_no relatedRecord))])) \<and>
   (get_record api (id_no relatedRecord) = Inl e \<longrightarrow>
      handleViewRelatedRecord api st relatedRecord
        = (st, [Requested (GetRecord (id_no relatedRecord)),
                ConsoleError ''Error fetching record:'',
                Edit (id_no relatedRecord), Close]))"
  by (simp add: handleViewRelatedRecord_def)

text \<open>
  The theorem at the record of id 7 with a history of three records, of which the one
  of id 3 is clicked: once with a backend that serves it, once with one that answers 404.
\<close>

theorem switch_record_replaces_or_falls_back_witness:
  "get_record \<lparr> get_history = (\<lambda>phone exclude_id limit. Inl NetworkFailure),
                get_record = (\<lambda>i. Inr ((example_record (Some ''2024-06-01''))\<lparr> id_no := i \<rparr>)) \<rparr>
      (id_no ((example_record None)\<lparr> id_no := 3 \<rparr>))
     = Inr ((example_record (Some ''2024-06-01''))\<lparr> id_no := 3 \<rparr>) \<and>
   handleViewRelatedRecord
      \<lparr> get_history = (\<lambda>phone exclude_id limit. Inl NetworkFailure),
        get_record = (\<lambda>i. Inr ((example_record (Some ''2024-06-01''))\<lparr> id_no := i \<rparr>)) \<rparr>
      \<lparr> currentRecord = example_record (Some ''2025-01-15''),
        relatedRecords = [(example_record None)\<lparr> id_no := 3 \<rparr>,
                          (example_record None)\<lparr> id_no := 4 \<rparr>,
                          (example_record None)\<lparr> id_no := 5 \<rparr>],
        loading = False \<rparr>
      ((example_record None)\<lparr> id_no := 3 \<rparr>)
     = (\<lparr> currentRecord = (example_record (Some ''2024-06-01''))\<lparr> id_no := 3 \<rparr>,
          relatedRecords = [], loading = False \<rparr>,
        [Requested (GetRecord 3)]) \<and>
   get_record \<lparr> get_history = (\<lambda>phone exclude_id limit. Inl NetworkFailure),
                get_record = (\<lambda>i. Inl (HttpStatus 404)) \<rparr>
      (id_no ((example_record None)\<lparr> id_no := 3 \<rparr>)) = Inl (HttpStatus 404) \<and>
   handleViewRelatedRecord
      \<lparr> get_history = (\<lambda>phone exclude_id limit. Inl NetworkFailure),
        get_record = (\<lambda>i. Inl (HttpStatus 404)) \<rparr>
      \<lparr> currentRecord = example_record (Some ''2025-01-15''),
        relatedRecords = [(example_record None)\<lparr> id_no := 3 \<rparr>,
                          (example_record None)\<lparr> id_no := 4 \<rparr>,
                          (example_record None)\<lparr> id_no := 5 \<rparr>],
        loading = False \<rparr>
      ((example_record None)\<lparr> id_no := 3 \<rparr>)
     = (\<lparr> currentRecord = example_record (Some ''2025-01-15''),
          relatedRecords = [(example_record None)\<lparr> id_no := 3 \<rparr>,
                            (example_record None)\<lparr> id_no := 4 \<rparr>,
                            (example_record None)\<lparr> id_no := 5 \<rparr>],
          loading = False \<rparr>,
        [Requested (GetRecord 3), ConsoleError ''Error fetching record:'', Edit 3, Close])"
  using
    switch_record_replaces_or_falls_back
      [of "\<lparr> get_history = (\<lambda>phone exclude_id limit. Inl NetworkFailure),
             get_record = (\<lambda>i. Inr ((example_record (Some ''2024-06-01''))\<lparr> id_no := i \<rparr>)) \<rparr>"
          "(example_record None)\<lparr> id_no := 3 \<rparr>"
          "(example_record (Some ''2024-06-01''))\<lparr> id_no := 3 \<rparr>"
          "\<lparr> currentRecord = example_record (Some ''2025-01-15''),
             relatedRecords = [(example_record None)\<lparr> id_no := 3 \<rparr>,
                               (example_record None)\<lparr> id_no := 4 \<rparr>,
                               (example_record None)\<lparr> id_no := 5 \<rparr>],
             loading = False \<rparr>"]
    switch_record_replaces_or_falls_back
      [of "\<lparr> get_history = (\<lambda>phone exclude_id limit. Inl NetworkFailure),
             get_record = (\<lambda>i. Inl (HttpStatus 404)) \<rparr>"
          "(example_record None)\<lparr> id_no := 3 \<rparr>" _
          "\<lparr> currentRecord = example_record (Some ''2025-01-15''),
             relatedRecords = [(example_record None)\<lparr> id_no := 3 \<rparr>,
                               (example_record None)\<lparr> id_no := 4 \<rparr>,
                               (example_record None)\<lparr> id_no := 5 \<rparr>],
             loading = False \<rparr>" "HttpStatus 404"]
  by (simp add: example_record_def)

section \<open>Properties of the builders on the store\<close>

lemma read_append:
  assumes "a < length h"
  shows "items_at (h @ cs) a = items_at h a" "counts_at (h @ cs) a = counts_at h a"
    "revenues_at (h @ cs) a = revenues_at h a" "entries_at (h @ cs) a = entries_at h a"
    "rows_at (h @ cs) a = rows_at h a" "monthly_rows_at (h @ cs) a = monthly_rows_at h a"
  using assms
  by (simp_all add: items_at_def counts_at_def revenues_at_def entries_at_def rows_at_def
      monthly_rows_at_def nth_append)

lemma refs_in_store_append: "refs_in_store summary h \<Longrightarrow> refs_in_store summary (h @ cs)"
  by (auto simp: refs_in_store_def split: option.splits)

lemma summary_of_append:
  "refs_in_store (Some r) h \<Longrightarrow> summary_of (h @ cs) r = summary_of h r"
  by (simp add: refs_in_store_def summary_of_def read_append)

lemma categoryRows_st_eq:
  assumes "revenues < length h"
  shows "categoryRows_st counts revenues h
         = (Suc (length h),
            h @ [Entries (counts_at h counts),
                 Rows (categoryRows (counts_at h counts) (revenues_at h revenues))])"
  using assms
  by (simp add: categoryRows_st_def alloc_def sort_at_def entries_at_def revenues_at_def
      nth_append categoryRows_def)

lemma prepareMonthlyData_st_eq:
  assumes "refs_in_store summary h"
  shows "\<exists>cs. prepareMonthlyData_st fmt summary h = (Suc (length h), h @ cs) \<and> length cs = 2 \<and>
           monthly_rows_at (h @ cs) (Suc (length h))
             = prepareMonthlyData fmt (map_option (summary_of h) summary)"
proof (cases summary)
  case None
  then show ?thesis
    by (simp add: prepareMonthlyData_st_def prepareMonthlyData_def alloc_def items_at_def
        monthly_rows_at_def nth_append)
next
  case (Some r)
  with assms have "monthly_trends_at r < length h" "projected_sales_at r < length h"
    by (simp_all add: refs_in_store_def)
  then show ?thesis
    by (simp add: Some prepareMonthlyData_st_def prepareMonthlyData_def alloc_def
        monthly_rows_at_def nth_append summary_of_def Let_def items_at_def)
qed

lemma prepareZoneData_st_eq:
  assumes "refs_in_store summary h"
  shows "\<exists>cs. prepareZoneData_st summary h = (length h + length cs - 1, h @ cs) \<and> cs \<noteq> [] \<and>
           rows_at (h @ cs) (length h + length cs - 1)
             = prepareZoneData (map_option (summary_of h) summary)"
proof (cases summary)
  case None
  then show ?thesis
    by (simp add: prepareZoneData_st_def prepareZoneData_def alloc_def rows_at_def nth_append)
next
  case (Some r)
  with assms have "by_zone_revenue_at r < length h"
    by (simp add: refs_in_store_def)
  then show ?thesis
    by (simp add: Some prepareZoneData_st_def prepareZoneData_def categoryRows_st_eq alloc_def
        rows_at_def nth_append summary_of_def)
qed

lemma prepareLeadSourceData_st_eq:
  assumes "refs_in_store summary h"
  shows "\<exists>cs. prepareLeadSourceData_st summary h = (length h + length cs - 1, h @ cs) \<and> cs \<noteq> [] \<and>
           rows_at (h @ cs) (length h + length cs - 1)
             = prepareLeadSourceData (map_option (summary_of h) summary)"
proof (cases summary)
  case None
  then show ?thesis
    by (simp add: prepareLeadSourceData_st_def prepareLeadSourceData_def alloc_def rows_at_def
        nth_append)
next
  case (Some r)
  with assms have "by_lead_source_revenue_at r < length h"
    by (simp add: refs_in_store_def)
  then show ?thesis
    by (simp add: Some prepareLeadSourceData_st_def prepareLeadSourceData_def categoryRows_st_eq
        alloc_def rows_at_def nth_append summary_of_def)
qed

lemma prepareSoldByData_st_eq:
  assumes "refs_in_store summary h"
  shows "\<exists>cs. prepareSoldByData_st summary h = (length h + length cs - 1, h @ cs) \<and> cs \<noteq> [] \<and>
           rows_at (h @ cs) (length h + length cs - 1)
             = prepareSoldByData (map_option (summary_of h) summary)"
proof (cases summary)
  case None
  then show ?thesis
    by (simp add: prepareSoldByData_st_def prepareSoldByData_def alloc_def rows_at_def nth_append)
next
  case (Some r)
  with assms have "by_sold_by_revenue_at r < length h"
    by (simp add: refs_in_store_def)
  then show ?thesis
    by (simp add: Some prepareSoldByData_st_def prepareSoldByData_def categoryRows_st_eq
        rows_at_def nth_append summary_of_def)
qed


lemma summary_value_append:
  "refs_in_store summary h \<Longrightarrow>
     map_option (summary_of (h @ cs)) summary = map_option (summary_of h) summary"
  by (cases summary) (simp_all add: summary_of_append)

lemma buildViewModel_eq:
  assumes "refs_in_store summary h"
  shows "\<exists>m z l s cs. buildViewModel fmt summary h = ((m, z, l, s), h @ cs) \<and>
           m < length (h @ cs) \<and> z < length (h @ cs) \<and> l < length (h @ cs) \<and>
           s < length (h @ cs) \<and>
           monthly_rows_at (h @ cs) m = prepareMonthlyData fmt (map_option (summary_of h) summary) \<and>
           rows_at (h @ cs) z = prepareZoneData (map_option (summary_of h) summary) \<and>
           rows_at (h @ cs) l = prepareLeadSourceData (map_option (summary_of h) summary) \<and>
           rows_at (h @ cs) s = prepareSoldByData (map_option (summary_of h) summary)"
proof -
  let ?S = "map_option (summary_of h) summary"
  obtain c1 where m: "prepareMonthlyData_st fmt summary h = (Suc (length h), h @ c1)"
    and len1: "length c1 = 2"
    and mv: "monthly_rows_at (h @ c1) (Suc (length h)) = prepareMonthlyData fmt ?S"
    using prepareMonthlyData_st_eq [OF assms] by blast
  let ?h1 = "h @ c1"
  have r1: "refs_in_store summary ?h1"
    by (rule refs_in_store_append [OF assms])
  have s1: "map_option (summary_of ?h1) summary = ?S"
    by (rule summary_value_append [OF assms])
  obtain c2 where z: "prepareZoneData_st summary ?h1 = (length ?h1 + length c2 - 1, ?h1 @ c2)"
    and ne2: "c2 \<noteq> []"
    and zv: "rows_at (?h1 @ c2) (length ?h1 + length c2 - 1) = prepareZoneData ?S"
    using prepareZoneData_st_eq [OF r1] s1 by auto
  let ?h2 = "?h1 @ c2"
  have r2: "refs_in_store summary ?h2"
    by (rule refs_in_store_append [OF r1])
  have s2: "map_option (summary_of ?h2) summary = ?S"
    using summary_value_append [OF r1] s1 by simp
  obtain c3 where l: "prepareLeadSourceData_st summary ?h2 = (length ?h2 + length c3 - 1, ?h2 @ c3)"
    and ne3: "c3 \<noteq> []"
    and lv: "rows_at (?h2 @ c3) (length ?h2 + length c3 - 1) = prepareLeadSourceData ?S"
    using prepareLeadSourceData_st_eq [OF r2] s2 by auto
  let ?h3 = "?h2 @ c3"
  have r3: "refs_in_store summary ?h3"
    by (rule refs_in_store_append [OF r2])
  have s3: "map_option (summary_of ?h3) summary = ?S"
    using summary_value_append [OF r2] s2 by simp
  obtain c4 where s: "prepareSoldByData_st summary ?h3 = (length ?h3 + length c4 - 1, ?h3 @ c4)"
    and ne4: "c4 \<noteq> []"
    and sv: "rows_at (?h3 @ c4) (length ?h3 + length c4 - 1) = prepareSoldByData ?S"
    using prepareSoldByData_st_eq [OF r3] s3 by auto
  let ?m = "Suc (length h)" and ?z = "length ?h1 + length c2 - 1"
    and ?l = "length ?h2 + length c3 - 1" and ?s = "length ?h3 + length c4 - 1"
  let ?cs = "c1 @ c2 @ c3 @ c4"
  have build: "buildViewModel fmt summary h = ((?m, ?z, ?l, ?s), h @ ?cs)"
    using m z l s by (simp add: buildViewModel_def)
  have mlt: "?m < length ?h1" using len1 by simp
  have zlt: "?z < length ?h2" using ne2 by (cases c2) simp_all
  have llt: "?l < length ?h3" using ne3 by (cases c3) simp_all
  have slt: "?s < length (?h3 @ c4)" using ne4 by (cases c4) simp_all
  have "monthly_rows_at (h @ ?cs) ?m = prepareMonthlyData fmt ?S"
    using read_append(6) [OF mlt, of "c2 @ c3 @ c4"] mv by simp
  moreover have "rows_at (h @ ?cs) ?z = prepareZoneData ?S"
    using read_append(5) [OF zlt, of "c3 @ c4"] zv by simp
  moreover have "rows_at (h @ ?cs) ?l = prepareLeadSourceData ?S"
    using read_append(5) [OF llt, of "c4"] lv by simp
  moreover have "rows_at (h @ ?cs) ?s = prepareSoldByData ?S"
    using sv by simp
  moreover have "?m < length (h @ ?cs)" "?z < length (h @ ?cs)" "?l < length (h @ ?cs)"
    "?s < length (h @ ?cs)"
    using mlt zlt llt slt by simp_all
  ultimately show ?thesis
    using build by blast
qed

text \<open>
  C7. For a payload that lives in the store, one build of the view-model followed by a
  second build from the same payload: the second build returns the same four series as
  the first, the series of the first build are still intact after the second, both are
  what the builders compute from the payload's value, and neither build changes a cell
  that existed before it, so the payload's arrays and mappings have the value they had.
  The only write to an existing cell is the in-place \<^verbatim>\<open>sort\<close>, and it hits the array that
  \<^verbatim>\<open>map\<close> has just allocated.
\<close>

theorem view_model_build_repeatable:
  "refs_in_store summary h \<longrightarrow>
     (case buildViewModel fmt summary h of (out1, h1) \<Rightarrow>
      case buildViewModel fmt summary h1 of (out2, h2) \<Rightarrow>
        view_of h2 out2 = view_of h1 out1 \<and>
        view_of h2 out1 = view_of h1 out1 \<and>
        view_of h1 out1
          = (prepareMonthlyData fmt (map_option (summary_of h) summary),
             prepareZoneData (map_option (summary_of h) summary),
             prepareLeadSourceData (map_option (summary_of h) summary),
             prepareSoldByData (map_option (summary_of h) summary)) \<and>
        take (length h) h1 = h \<and> take (length h) h2 = h \<and>
        map_option (summary_of h1) summary = map_option (summary_of h) summary \<and>
        map_option (summary_of h2) summary = map_option (summary_of h) summary)"
proof
  assume refs: "refs_in_store summary h"
  let ?S = "map_option (summary_of h) summary"
  obtain m z l s cs where b1: "buildViewModel fmt summary h = ((m, z, l, s), h @ cs)"
    and lt1: "m < length (h @ cs)" "z < length (h @ cs)" "l < length (h @ cs)" "s < length (h @ cs)"
    and v1: "monthly_rows_at (h @ cs) m = prepareMonthlyData fmt ?S"
      "rows_at (h @ cs) z = prepareZoneData ?S"
      "rows_at (h @ cs) l = prepareLeadSourceData ?S"
      "rows_at (h @ cs) s = prepareSoldByData ?S"
    using buildViewModel_eq [OF refs] by blast
  let ?h1 = "h @ cs"
  have refs1: "refs_in_store summary ?h1"
    by (rule refs_in_store_append [OF refs])
  have S1: "map_option (summary_of ?h1) summary = ?S"
    by (rule summary_value_append [OF refs])
  obtain m' z' l' s' ds where b2: "buildViewModel fmt summary ?h1 = ((m', z', l', s'), ?h1 @ ds)"
    and v2: "monthly_rows_at (?h1 @ ds) m' = prepareMonthlyData fmt ?S"
      "rows_at (?h1 @ ds) z' = prepareZoneData ?S"
      "rows_at (?h1 @ ds) l' = prepareLeadSourceData ?S"
      "rows_at (?h1 @ ds) s' = prepareSoldByData ?S"
    using buildViewModel_eq [OF refs1, of fmt] S1 by auto
  have S2: "map_option (summary_of (?h1 @ ds)) summary = ?S"
    using summary_value_append [OF refs1] S1 by simp
  have keep: "monthly_rows_at (?h1 @ ds) m = monthly_rows_at ?h1 m"
    "rows_at (?h1 @ ds) z = rows_at ?h1 z" "rows_at (?h1 @ ds) l = rows_at ?h1 l"
    "rows_at (?h1 @ ds) s = rows_at ?h1 s"
    using lt1 by (simp_all only: read_append)
  show "case buildViewModel fmt summary h of (out1, h1) \<Rightarrow>
      case buildViewModel fmt summary h1 of (out2, h2) \<Rightarrow>
        view_of h2 out2 = view_of h1 out1 \<and>
        view_of h2 out1 = view_of h1 out1 \<and>
        view_of h1 out1
          = (prepareMonthlyData fmt ?S, prepareZoneData ?S, prepareLeadSourceData ?S,
             prepareSoldByData ?S) \<and>
        take (length h) h1 = h \<and> take (length h) h2 = h \<and>
        map_option (summary_of h1) summary = ?S \<and>
        map_option (summary_of h2) summary = ?S"
    using v1 v2 keep S1 S2 b2 by (simp add: b1 view_of_def)
qed

lemma example_summary:
  "summary_of example_store example_refs =
     \<lparr> monthly_trends = [\<lparr> count = 4, revenue = 400, month = ''2025-05'' \<rparr>],
       projected_sales = [\<lparr> count = 6, revenue = 600, month = ''2025-06'' \<rparr>],
       by_zone = [(''North'', 3), (''South'', 1)],
       by_zone_revenue = [(''North'', 250), (''South'', 1000)],
       by_lead_source = [(''Web'', 4)], by_lead_source_revenue = [(''Web'', 300)],
       by_sold_by = [(''Asha'', 2)], by_sold_by_revenue = [(''Asha'', 500)] \<rparr>"
  by (simp add: summary_of_def example_store_def example_refs_def items_at_def counts_at_def
      revenues_at_def)

lemmas store_eval = example_refs_def example_store_def prepareMonthlyData_st_def
  prepareZoneData_st_def prepareLeadSourceData_st_def prepareSoldByData_st_def
  categoryRows_st_def alloc_def sort_at_def array_sort_def array_find_def or_zero_def
  chart_row_def property_or_zero_def revenue_desc_def items_at_def counts_at_def revenues_at_def entries_at_def rows_at_def

lemma example_monthly_st:
  "prepareMonthlyData_st (\<lambda>m. m) (Some example_refs) example_store
   = (9, (example_store @
     [Items [\<lparr> count = 4, revenue = 400, month = ''2025-05'' \<rparr>,
             \<lparr> count = 6, revenue = 600, month = ''2025-06'' \<rparr>],
      MonthlyRows
        [\<lparr> MonthlyRow.month = ''2025-05'', monthKey = ''2025-05'', actualCount = 4,
            projectedCount = 0, actualRevenue = 400, projectedRevenue = 0,
            isProjected = False \<rparr>,
         \<lparr> MonthlyRow.month = ''2025-06'', monthKey = ''2025-06'', actualCount = 0,
            projectedCount = 6, actualRevenue = 0, projectedRevenue = 600,
            isProjected = True \<rparr>]]))"
  by (simp add: store_eval)

lemma example_zone_st:
  "prepareZoneData_st (Some example_refs)
     (example_store @
     [Items [\<lparr> count = 4, revenue = 400, month = ''2025-05'' \<rparr>,
             \<lparr> count = 6, revenue = 600, month = ''2025-06'' \<rparr>],
      MonthlyRows
        [\<lparr> MonthlyRow.month = ''2025-05'', monthKey = ''2025-05'', actualCount = 4,
            projectedCount = 0, actualRevenue = 400, projectedRevenue = 0,
            isProjected = False \<rparr>,
         \<lparr> MonthlyRow.month = ''2025-06'', monthKey = ''2025-06'', actualCount = 0,
            projectedCount = 6, actualRevenue = 0, projectedRevenue = 600,
            isProjected = True \<rparr>]])
   = (12, (example_store @
     [Items [\<lparr> count = 4, revenue = 400, month = ''2025-05'' \<rparr>,
             \<lparr> count = 6, revenue = 600, month = ''2025-06'' \<rparr>],
      MonthlyRows
        [\<lparr> MonthlyRow.month = ''2025-05'', monthKey = ''2025-05'', actualCount = 4,
            projectedCount = 0, actualRevenue = 400, projectedRevenue = 0,
            isProjected = False \<rparr>,
         \<lparr> MonthlyRow.month = ''2025-06'', monthKey = ''2025-06'', actualCount = 0,
            projectedCount = 6, actualRevenue = 0, projectedRevenue = 600,
            isProjected = True \<rparr>],
      Entries [(''North'', 3), (''South'', 1)],
      Rows [\<lparr> count = 1, revenue = Number 1000, name = ''South'' \<rparr>,
            \<lparr> count = 3, revenue = Number 250, name = ''North'' \<rparr>],
      Rows [\<lparr> count = 1, revenue = Number 1000, name = ''South'' \<rparr>,
            \<lparr> count = 3, revenue = Number 250, name = ''North'' \<rparr>]]))"
  by (simp add: store_eval)

lemma example_lead_st:
  "prepareLeadSourceData_st (Some example_refs)
     (example_store @
     [Items [\<lparr> count = 4, revenue = 400, month = ''2025-05'' \<rparr>,
             \<lparr> count = 6, revenue = 600, month = ''2025-06'' \<rparr>],
      MonthlyRows
        [\<lparr> MonthlyRow.month = ''2025-05'', monthKey = ''2025-05'', actualCount = 4,
            projectedCount = 0, actualRevenue = 400, projectedRevenue = 0,
            isProjected = False \<rparr>,
         \<lparr> MonthlyRow.month = ''2025-06'', monthKey = ''2025-06'', actualCount = 0,
            projectedCount = 6, actualRevenue = 0, projectedRevenue = 600,
            isProjected = True \<rparr>],
      Entries [(''North'', 3), (''South'', 1)],
      Rows [\<lparr> count = 1, revenue = Number 1000, name = ''South'' \<rparr>,
            \<lparr> count = 3, revenue = Number 250, name = ''North'' \<rparr>],
      Rows [\<lparr> count = 1, revenue = Number 1000, name = ''South'' \<rparr>,
            \<lparr> count = 3, revenue = Number 250, name = ''North'' \<rparr>]])
   = (15, (example_store @
     [Items [\<lparr> count = 4, revenue = 400, month = ''2025-05'' \<rparr>,
             \<lparr> count = 6, revenue = 600, month = ''2025-06'' \<rparr>],
      MonthlyRows
        [\<lparr> MonthlyRow.month = ''2025-05'', monthKey = ''2025-05'', actualCount = 4,
            projectedCount = 0, actualRevenue = 400, projectedRevenue = 0,
            isProjected = False \<rparr>,
         \<lparr> MonthlyRow.month = ''2025-06'', monthKey = ''2025-06'', actualCount = 0,
            projectedCount = 6, actualRevenue = 0, projectedRevenue = 600,
            isProjected = True \<rparr>],
      Entries [(''North'', 3), (''South'', 1)],
      Rows [\<lparr> count = 1, revenue = Number 1000, name = ''South'' \<rparr>,
            \<lparr> count = 3, revenue = Number 250, name = ''North'' \<rparr>],
      Rows [\<lparr> count = 1, revenue = Number 1000, name = ''South'' \<rparr>,
            \<lparr> count = 3, revenue = Number 250, name = ''North'' \<rparr>],
      Entries [(''Web'', 4)],
      Rows [\<lparr> count = 4, revenue = Number 300, name = ''Web'' \<rparr>],
      Rows [\<lparr> count = 4, revenue = Number 300, name = ''Web'' \<rparr>]]))"
  by (simp add: store_eval)

lemma example_sold_st:
  "prepareSoldByData_st (Some example_refs)
     (example_store @
     [Items [\<lparr> count = 4, revenue = 400, month = ''2025-05'' \<rparr>,
             \<lparr> count = 6, revenue = 600, month = ''2025-06'' \<rparr>],
      MonthlyRows
        [\<lparr> MonthlyRow.month = ''2025-05'', monthKey = ''2025-05'', actualCount = 4,
            projectedCount = 0, actualRevenue = 400, projectedRevenue = 0,
            isProjected = False \<rparr>,
         \<lparr> MonthlyRow.month = ''2025-06'', monthKey = ''2025-06'', actualCount = 0,
            projectedCount = 6, actualRevenue = 0, projectedRevenue = 600,
            isProjected = True \<rparr>],
      Entries [(''North'', 3), (''South'', 1)],
      Rows [\<lparr> count = 1, revenue = Number 1000, name = ''South'' \<rparr>,
            \<lparr> count = 3, revenue = Number 250, name = ''North'' \<rparr>],
      Rows [\<lparr> count = 1, revenue = Number 1000, name = ''South'' \<rparr>,
            \<lparr> count = 3, revenue = Number 250, name = ''North'' \<rparr>],
      Entries [(''Web'', 4)],
      Rows [\<lparr> count = 4, revenue = Number 300, name = ''Web'' \<rparr>],
      Rows [\<lparr> count = 4, revenue = Number 300, name = ''Web'' \<rparr>]])
   = (17, (example_store @
     [Items [\<lparr> count = 4, revenue = 400, month = ''2025-05'' \<rparr>,
             \<lparr> count = 6, revenue = 600, month = ''2025-06'' \<rparr>],
      MonthlyRows
        [\<lparr> MonthlyRow.month = ''2025-05'', monthKey = ''2025-05'', actualCount = 4,
            projectedCount = 0, actualRevenue = 400, projectedRevenue = 0,
            isProjected = False \<rparr>,
         \<lparr> MonthlyRow.month = ''2025-06'', monthKey = ''2025-06'', actualCount = 0,
            projectedCount = 6, actualRevenue = 0, projectedRevenue = 600,
            isProjected = True \<rparr>],
      Entries [(''North'', 3), (''South'', 1)],
      Rows [\<lparr> count = 1, revenue = Number 1000, name = ''South'' \<rparr>,
            \<lparr> count = 3, revenue = Number 250, name = ''North'' \<rparr>],
      Rows [\<lparr> count = 1, revenue = Number 1000, name = ''South'' \<rparr>,
            \<lparr> count = 3, revenue = Number 250, name = ''North'' \<rparr>],
      Entries [(''Web'', 4)],
      Rows [\<lparr> count = 4, revenue = Number 300, name = ''Web'' \<rparr>],
      Rows [\<lparr> count = 4, revenue = Number 300, name = ''Web'' \<rparr>],
      Entries [(''Asha'', 2)],
      Rows [\<lparr> count = 2, revenue = Number 500, name = ''Asha'' \<rparr>]]))"
  by (simp add: store_eval)

lemma example_build:
  "buildViewModel (\<lambda>m. m) (Some example_refs) example_store
   = ((9, 12, 15, 17), (example_store @
     [Items [\<lparr> count = 4, revenue = 400, month = ''2025-05'' \<rparr>,
             \<lparr> count = 6, revenue = 600, month = ''2025-06'' \<rparr>],
      MonthlyRows
        [\<lparr> MonthlyRow.month = ''2025-05'', monthKey = ''2025-05'', actualCount = 4,
            projectedCount = 0, actualRevenue = 400, projectedRevenue = 0,
            isProjected = False \<rparr>,
         \<lparr> MonthlyRow.month = ''2025-06'', monthKey = ''2025-06'', actualCount = 0,
            projectedCount = 6, actualRevenue = 0, projectedRevenue = 600,
            isProjected = True \<rparr>],
      Entries [(''North'', 3), (''South'', 1)],
      Rows [\<lparr> count = 1, revenue = Number 1000, name = ''South'' \<rparr>,
            \<lparr> count = 3, revenue = Number 250, name = ''North'' \<rparr>],
      Rows [\<lparr> count = 1, revenue = Number 1000, name = ''South'' \<rparr>,
            \<lparr> count = 3, revenue = Number 250, name = ''North'' \<rparr>],
      Entries [(''Web'', 4)],
      Rows [\<lparr> count = 4, revenue = Number 300, name = ''Web'' \<rparr>],
      Rows [\<lparr> count = 4, revenue = Number 300, name = ''Web'' \<rparr>],
      Entries [(''Asha'', 2)],
      Rows [\<lparr> count = 2, revenue = Number 500, name = ''Asha'' \<rparr>]]))"
  by (simp add: buildViewModel_def example_monthly_st example_zone_st example_lead_st
      example_sold_st)

text \<open>
  The theorem at a store of eight cells: the first build allocates nine cells behind
  them and returns the addresses 9, 12, 15 and 17; both builds give the same monthly
  rows and the same three breakdowns (South before North: revenue 1000 before 250), and
  the eight cells are unchanged.
\<close>

theorem view_model_build_repeatable_witness:
  "refs_in_store (Some example_refs) example_store \<and>
   buildViewModel (\<lambda>m. m) (Some example_refs) example_store
   = ((9, 12, 15, 17), (example_store @
     [Items [\<lparr> count = 4, revenue = 400, month = ''2025-05'' \<rparr>,
             \<lparr> count = 6, revenue = 600, month = ''2025-06'' \<rparr>],
      MonthlyRows
        [\<lparr> MonthlyRow.month = ''2025-05'', monthKey = ''2025-05'', actualCount = 4,
            projectedCount = 0, actualRevenue = 400, projectedRevenue = 0,
            isProjected = False \<rparr>,
         \<lparr> MonthlyRow.month = ''2025-06'', monthKey = ''2025-06'', actualCount = 0,
            projectedCount = 6, actualRevenue = 0, projectedRevenue = 600,
            isProjected = True \<rparr>],
      Entries [(''North'', 3), (''South'', 1)],
      Rows [\<lparr> count = 1, revenue = Number 1000, name = ''South'' \<rparr>,
            \<lparr> count = 3, revenue = Number 250, name = ''North'' \<rparr>],
      Rows [\<lparr> count = 1, revenue = Number 1000, name = ''South'' \<rparr>,
            \<lparr> count = 3, revenue = Number 250, name = ''North'' \<rparr>],
      Entries [(''Web'', 4)],
      Rows [\<lparr> count = 4, revenue = Number 300, name = ''Web'' \<rparr>],
      Rows [\<lparr> count = 4, revenue = Number 300, name = ''Web'' \<rparr>],
      Entries [(''Asha'', 2)],
      Rows [\<lparr> count = 2, revenue = Number 500, name = ''Asha'' \<rparr>]])) \<and>
   (case buildViewModel (\<lambda>m. m) (Some example_refs) example_store of
      (out1, h1) \<Rightarrow>
        case buildViewModel (\<lambda>m. m) (Some example_refs) h1 of
          (out2, h2) \<Rightarrow>
            view_of h2 out2 = view_of h1 out1 \<and>
            view_of h1 out1
              = ([\<lparr> MonthlyRow.month = ''2025-05'', monthKey = ''2025-05'', actualCount = 4,
                    projectedCount = 0, actualRevenue = 400, projectedRevenue = 0,
                    isProjected = False \<rparr>,
                  \<lparr> MonthlyRow.month = ''2025-06'', monthKey = ''2025-06'', actualCount = 0,
                    projectedCount = 6, actualRevenue = 0, projectedRevenue = 600,
                    isProjected = True \<rparr>],
                 [\<lparr> count = 1, revenue = Number 1000, name = ''South'' \<rparr>,
                  \<lparr> count = 3, revenue = Number 250, name = ''North'' \<rparr>],
                 [\<lparr> count = 4, revenue = Number 300, name = ''Web'' \<rparr>],
                 [\<lparr> count = 2, revenue = Number 500, name = ''Asha'' \<rparr>]) \<and>
            take (length example_store) h1 = example_store \<and>
            take (length example_store) h2 = example_store \<and>
            summary_of h2 example_refs = summary_of example_store example_refs)"
proof -
  have refs: "refs_in_store (Some example_refs) example_store"
    by (simp add: refs_in_store_def example_refs_def example_store_def)
  have vals:
    "prepareMonthlyData (\<lambda>m. m) (Some (summary_of example_store example_refs))
       = [\<lparr> MonthlyRow.month = ''2025-05'', monthKey = ''2025-05'', actualCount = 4,
             projectedCount = 0, actualRevenue = 400, projectedRevenue = 0,
             isProjected = False \<rparr>,
           \<lparr> MonthlyRow.month = ''2025-06'', monthKey = ''2025-06'', actualCount = 0,
             projectedCount = 6, actualRevenue = 0, projectedRevenue = 600,
             isProjected = True \<rparr>]"
    "prepareZoneData (Some (summary_of example_store example_refs))
       = [\<lparr> count = 1, revenue = Number 1000, name = ''South'' \<rparr>,
          \<lparr> count = 3, revenue = Number 250, name = ''North'' \<rparr>]"
    "prepareLeadSourceData (Some (summary_of example_store example_refs))
       = [\<lparr> count = 4, revenue = Number 300, name = ''Web'' \<rparr>]"
    "prepareSoldByData (Some (summary_of example_store example_refs))
       = [\<lparr> count = 2, revenue = Number 500, name = ''Asha'' \<rparr>]"
    by (simp_all add: example_summary prepareMonthlyData_def prepareZoneData_def
        prepareLeadSourceData_def prepareSoldByData_def categoryRows_def array_sort_def
        array_find_def or_zero_def chart_row_def property_or_zero_def revenue_desc_def
        Let_def)
  show ?thesis
    using view_model_build_repeatable [of "Some example_refs" example_store "\<lambda>m. m"] refs
      example_build
    by (simp add: vals case_prod_beta)
qed

end
